theory Spec2Isabelle
  imports Complex_Main "HOL-Library.Word"
begin

section \<open>JavaScript values\<close>

text \<open>
  \<^verbatim>\<open>isMetadata\<close> takes a value of type \<^verbatim>\<open>any\<close>, so the values it can receive are
  modelled as an untyped datatype. A \<^verbatim>\<open>JObject\<close> or \<^verbatim>\<open>JFunction\<close> carries the
  properties that a property read finds on it (own or inherited), in order.
  Numbers are modelled by their finite values.
\<close>

datatype js_value =
    JUndefined
  | JNull
  | JBoolean bool
  | JNumber rat
  | JString string
  | JObject "(string \<times> js_value) list"
  | JFunction "(string \<times> js_value) list"

datatype js_error =
    TypeError
  | AssertionError string

text \<open>The \<^verbatim>\<open>typeof\<close> operator; \<^verbatim>\<open>typeof null\<close> is \<^verbatim>\<open>'object'\<close>.\<close>

fun typeof :: "js_value \<Rightarrow> string" where
  "typeof JUndefined = ''undefined''"
| "typeof JNull = ''object''"
| "typeof (JBoolean b) = ''boolean''"
| "typeof (JNumber n) = ''number''"
| "typeof (JString s) = ''string''"
| "typeof (JObject ps) = ''object''"
| "typeof (JFunction ps) = ''function''"

text \<open>
  The property read \<^verbatim>\<open>value.p\<close>: a TypeError on \<^verbatim>\<open>undefined\<close> and \<^verbatim>\<open>null\<close>,
  \<^verbatim>\<open>undefined\<close> for a property that is not there (the wrapper prototypes of the
  primitives have no property of the names read here).
\<close>

fun lookup_property :: "(string \<times> js_value) list \<Rightarrow> string \<Rightarrow> js_value" where
  "lookup_property ps p = (case map_of ps p of None \<Rightarrow> JUndefined | Some v \<Rightarrow> v)"

fun get_property :: "js_value \<Rightarrow> string \<Rightarrow> js_error + js_value" where
  "get_property JUndefined p = Inl TypeError"
| "get_property JNull p = Inl TypeError"
| "get_property (JBoolean b) p = Inr JUndefined"
| "get_property (JNumber n) p = Inr JUndefined"
| "get_property (JString s) p = Inr JUndefined"
| "get_property (JObject ps) p = Inr (lookup_property ps p)"
| "get_property (JFunction ps) p = Inr (lookup_property ps p)"


section \<open>Metadata.ts: the decoded account\<close>

text \<open>
  \<^verbatim>\<open>Option<T>\<close> is \<^verbatim>\<open>T | null\<close>: an \<open>option\<close>. An optional parameter \<^verbatim>\<open>p?: T\<close> is
  \<^verbatim>\<open>undefined\<close> when the call leaves it out; a call that passes \<^verbatim>\<open>undefined\<close>
  is the same call.
\<close>

datatype 'a optional = Undefined | Defined 'a

datatype PublicKey = PublicKey (toBase58: string)

record Pda =
  publicKey :: PublicKey
  bump :: nat

type_synonym bignum = int

text \<open>\<^verbatim>\<open>BigNumber\<close> of \<^verbatim>\<open>@/types\<close>: an arbitrary-precision integer.\<close>

type_synonym BigNumber = int

type_synonym JsonMetadata = js_value

datatype TokenStandard = NonFungible | FungibleAsset | Fungible | NonFungibleEdition

datatype UseMethod = Burn | Multiple | Single

record Creator =
  address :: PublicKey
  verified :: bool
  share :: nat

record Data =
  name :: string
  symbol :: string
  uri :: string
  sellerFeeBasisPoints :: nat
  creators :: "Creator list option"

record Collection =
  verified :: bool
  key :: PublicKey

datatype CollectionDetailsKind = V1

record CollectionDetails =
  kind :: CollectionDetailsKind
  size_details :: bignum

record Uses =
  useMethod :: UseMethod
  remaining :: bignum
  total :: bignum

text \<open>\<^verbatim>\<open>account.data\<close>, as \<^verbatim>\<open>toMetadata\<close> reads it.\<close>

record MetadataArgs =
  updateAuthority :: PublicKey
  mint :: PublicKey
  data :: Data
  primarySaleHappened :: bool
  isMutable :: bool
  editionNonce :: "nat option"
  tokenStandard :: "TokenStandard option"
  collection :: "Collection option"
  collectionDetails :: "CollectionDetails option"
  uses :: "Uses option"

record MetadataAccount =
  publicKey :: PublicKey
  data :: MetadataArgs


section \<open>Metadata.ts: the Metadata model\<close>

record MetadataUses =
  useMethod :: UseMethod
  remaining :: BigNumber
  total :: BigNumber

text \<open>
  The object \<^verbatim>\<open>{...account.data.collection, address: account.data.collection.key}\<close>:
  the spread keeps \<^verbatim>\<open>verified\<close> and \<^verbatim>\<open>key\<close>.
\<close>

record MetadataParentCollection =
  verified :: bool
  key :: PublicKey
  address :: PublicKey

record MetadataCollectionDetails =
  version :: CollectionDetailsKind
  size_details :: BigNumber

record Metadata =
  model :: string
  address :: Pda
  mintAddress :: PublicKey
  updateAuthorityAddress :: PublicKey
  json :: "JsonMetadata option"
  jsonLoaded :: bool
  name :: string
  symbol :: string
  uri :: string
  isMutable :: bool
  primarySaleHappened :: bool
  sellerFeeBasisPoints :: nat
  editionNonce :: "nat option"
  creators :: "Creator list"
  tokenStandard :: "TokenStandard option"
  collection :: "MetadataParentCollection option"
  collectionDetails :: "MetadataCollectionDetails option"
  uses :: "MetadataUses option"

text \<open>
  Modelled from the spec: \<^verbatim>\<open>removeEmptyChars\<close> of \<^verbatim>\<open>@/utils\<close> is not among the
  sources. The spec has it strip the trailing null (padding) characters of a
  fixed-width on-chain string field, \<^verbatim>\<open>"MyNFT\0\0\0"\<close> becoming \<^verbatim>\<open>"MyNFT"\<close>.
\<close>

definition removeEmptyChars :: "string \<Rightarrow> string" where
  "removeEmptyChars v = rev (dropWhile (\<lambda>c. c = CHR 0x00) (rev v))"

text \<open>
  Modelled from the spec: \<^verbatim>\<open>toBigNumber\<close> of \<^verbatim>\<open>@/types\<close> is not among the sources.
  The spec has it widen a numeric field to arbitrary precision, keeping its value.
\<close>

definition toBigNumber :: "bignum \<Rightarrow> BigNumber" where
  "toBigNumber n = n"

text \<open>
  Modelled from the spec: \<^verbatim>\<open>assert\<close> of \<^verbatim>\<open>@/utils\<close> is not among the sources. The
  spec has the assertion raise a type-assertion failure when its condition is
  false and return normally otherwise.
\<close>

definition assert :: "bool \<Rightarrow> string \<Rightarrow> js_error + unit" where
  "assert condition message = (if condition then Inr () else Inl (AssertionError message))"

text \<open>
  \<^verbatim>\<open>typeof value === 'object' && value.model === 'metadata'\<close>: the property is read
  only when the first operand is true, and the read can raise.
\<close>

definition isMetadata :: "js_value \<Rightarrow> js_error + bool" where
  "isMetadata v =
     (if typeof v = ''object''
      then (case get_property v ''model'' of
              Inl e \<Rightarrow> Inl e
            | Inr m \<Rightarrow> Inr (m = JString ''metadata''))
      else Inr False)"

definition assertMetadata :: "js_value \<Rightarrow> js_error + unit" where
  "assertMetadata v =
     (case isMetadata v of
        Inl e \<Rightarrow> Inl e
      | Inr b \<Rightarrow> assert b ''Expected Metadata model'')"

text \<open>
  \<^verbatim>\<open>findMetadataPda\<close> of \<^verbatim>\<open>./pdas\<close> is not among the sources; \<^verbatim>\<open>toMetadata\<close> takes it
  as a parameter.
\<close>

definition toMetadata ::
  "(PublicKey \<Rightarrow> Pda) \<Rightarrow> MetadataAccount \<Rightarrow> JsonMetadata option optional \<Rightarrow> Metadata" where
  "toMetadata findMetadataPda account json_arg =
     \<lparr> model = ''metadata'',
       address = findMetadataPda (mint (MetadataAccount.data account)),
       mintAddress = mint (MetadataAccount.data account),
       updateAuthorityAddress = updateAuthority (MetadataAccount.data account),
       json = (case json_arg of
                 Undefined \<Rightarrow> None
               | Defined None \<Rightarrow> None
               | Defined (Some doc) \<Rightarrow> Some doc),
       jsonLoaded = (json_arg \<noteq> Undefined),
       name = removeEmptyChars (Data.name (MetadataArgs.data (MetadataAccount.data account))),
       symbol = removeEmptyChars (Data.symbol (MetadataArgs.data (MetadataAccount.data account))),
       uri = removeEmptyChars (Data.uri (MetadataArgs.data (MetadataAccount.data account))),
       isMutable = MetadataArgs.isMutable (MetadataAccount.data account),
       primarySaleHappened = MetadataArgs.primarySaleHappened (MetadataAccount.data account),
       sellerFeeBasisPoints =
         Data.sellerFeeBasisPoints (MetadataArgs.data (MetadataAccount.data account)),
       editionNonce = MetadataArgs.editionNonce (MetadataAccount.data account),
       creators =
         (case Data.creators (MetadataArgs.data (MetadataAccount.data account)) of
            None \<Rightarrow> []
          | Some cs \<Rightarrow> cs),
       tokenStandard = MetadataArgs.tokenStandard (MetadataAccount.data account),
       collection =
         (case MetadataArgs.collection (MetadataAccount.data account) of
            None \<Rightarrow> None
          | Some c \<Rightarrow>
              Some \<lparr> MetadataParentCollection.verified = Collection.verified c,
                     MetadataParentCollection.key = Collection.key c,
                     MetadataParentCollection.address = Collection.key c \<rparr>),
       collectionDetails =
         (case MetadataArgs.collectionDetails (MetadataAccount.data account) of
            None \<Rightarrow> None
          | Some d \<Rightarrow>
              Some \<lparr> version = CollectionDetails.kind d,
                     MetadataCollectionDetails.size_details =
                       toBigNumber (CollectionDetails.size_details d) \<rparr>),
       uses =
         (case MetadataArgs.uses (MetadataAccount.data account) of
            None \<Rightarrow> None
          | Some u \<Rightarrow>
              Some \<lparr> MetadataUses.useMethod = Uses.useMethod u,
                     MetadataUses.remaining = toBigNumber (Uses.remaining u),
                     MetadataUses.total = toBigNumber (Uses.total u) \<rparr>) \<rparr>"

section \<open>The Metadata record as a JavaScript value\<close>

text \<open>
  \<^verbatim>\<open>toMetadata\<close> returns an object literal. Its properties, in the order of the
  literal, are what \<^verbatim>\<open>isMetadata\<close> sees when handed that object.
\<close>

definition js_of_PublicKey :: "PublicKey \<Rightarrow> js_value" where
  "js_of_PublicKey k = JObject [(''base58'', JString (toBase58 k))]"

definition js_of_Pda :: "Pda \<Rightarrow> js_value" where
  "js_of_Pda p =
     JObject [(''base58'', JString (toBase58 (Pda.publicKey p))),
              (''bump'', JNumber (of_nat (bump p)))]"

definition js_of_option :: "('a \<Rightarrow> js_value) \<Rightarrow> 'a option \<Rightarrow> js_value" where
  "js_of_option f x = (case x of None \<Rightarrow> JNull | Some y \<Rightarrow> f y)"

definition js_of_Creator :: "Creator \<Rightarrow> js_value" where
  "js_of_Creator c =
     JObject [(''address'', js_of_PublicKey (Creator.address c)),
              (''verified'', JBoolean (Creator.verified c)),
              (''share'', JNumber (of_nat (share c)))]"

text \<open>An array is an object; its elements are the properties named by the indices.\<close>

fun js_index_name :: "nat \<Rightarrow> string" where
  "js_index_name n =
     (if n < 10 then [char_of (48 + n)]
      else js_index_name (n div 10) @ [char_of (48 + n mod 10)])"

declare js_index_name.simps [simp del]

definition js_of_array :: "js_value list \<Rightarrow> js_value" where
  "js_of_array vs =
     JObject (map (\<lambda>(i, v). (js_index_name i, v)) (enumerate 0 vs)
              @ [(''length'', JNumber (of_nat (length vs)))])"

fun js_of_TokenStandard :: "TokenStandard \<Rightarrow> js_value" where
  "js_of_TokenStandard NonFungible = JNumber 0"
| "js_of_TokenStandard FungibleAsset = JNumber 1"
| "js_of_TokenStandard Fungible = JNumber 2"
| "js_of_TokenStandard NonFungibleEdition = JNumber 3"

fun js_of_UseMethod :: "UseMethod \<Rightarrow> js_value" where
  "js_of_UseMethod Burn = JNumber 0"
| "js_of_UseMethod Multiple = JNumber 1"
| "js_of_UseMethod Single = JNumber 2"

definition js_of_BigNumber :: "BigNumber \<Rightarrow> js_value" where
  "js_of_BigNumber n = JObject [(''value'', JNumber (of_int n))]"

definition js_of_MetadataParentCollection :: "MetadataParentCollection \<Rightarrow> js_value" where
  "js_of_MetadataParentCollection c =
     JObject [(''verified'', JBoolean (MetadataParentCollection.verified c)),
              (''key'', js_of_PublicKey (MetadataParentCollection.key c)),
              (''address'', js_of_PublicKey (MetadataParentCollection.address c))]"

definition js_of_MetadataCollectionDetails :: "MetadataCollectionDetails \<Rightarrow> js_value" where
  "js_of_MetadataCollectionDetails d =
     JObject [(''version'', JString ''V1''),
              (''size'', js_of_BigNumber (MetadataCollectionDetails.size_details d))]"

definition js_of_MetadataUses :: "MetadataUses \<Rightarrow> js_value" where
  "js_of_MetadataUses u =
     JObject [(''useMethod'', js_of_UseMethod (MetadataUses.useMethod u)),
              (''remaining'', js_of_BigNumber (MetadataUses.remaining u)),
              (''total'', js_of_BigNumber (MetadataUses.total u))]"

definition js_of_Metadata :: "Metadata \<Rightarrow> js_value" where
  "js_of_Metadata m =
     JObject
       [(''model'', JString (model m)),
        (''address'', js_of_Pda (Metadata.address m)),
        (''mintAddress'', js_of_PublicKey (mintAddress m)),
        (''updateAuthorityAddress'', js_of_PublicKey (updateAuthorityAddress m)),
        (''json'', js_of_option id (json m)),
        (''jsonLoaded'', JBoolean (jsonLoaded m)),
        (''name'', JString (Metadata.name m)),
        (''symbol'', JString (Metadata.symbol m)),
        (''uri'', JString (Metadata.uri m)),
        (''isMutable'', JBoolean (Metadata.isMutable m)),
        (''primarySaleHappened'', JBoolean (Metadata.primarySaleHappened m)),
        (''sellerFeeBasisPoints'', JNumber (of_nat (Metadata.sellerFeeBasisPoints m))),
        (''editionNonce'', js_of_option (\<lambda>n. JNumber (of_nat n)) (Metadata.editionNonce m)),
        (''creators'', js_of_array (map js_of_Creator (Metadata.creators m))),
        (''tokenStandard'', js_of_option js_of_TokenStandard (Metadata.tokenStandard m)),
        (''collection'', js_of_option js_of_MetadataParentCollection (Metadata.collection m)),
        (''collectionDetails'',
           js_of_option js_of_MetadataCollectionDetails (Metadata.collectionDetails m)),
        (''uses'', js_of_option js_of_MetadataUses (Metadata.uses m))]"


section \<open>BundlrStorageDriver.ts: data\<close>

text \<open>
  \<^verbatim>\<open>BigNumber\<close> of bignumber.js: an arbitrary-precision decimal, modelled by its
  finite values. Sums, differences and products are exact.
\<close>

type_synonym BigNumber_js = rat

text \<open>
  \<^verbatim>\<open>x.decimalPlaces(dp)\<close> rounds to \<open>dp\<close> decimal places with the library's default
  rounding mode ROUND_HALF_UP: to the nearest neighbour, away from zero when
  equidistant.
\<close>

definition round_half_up :: "rat \<Rightarrow> int" where
  "round_half_up x = (if 0 \<le> x then \<lfloor>x + 1 / 2\<rfloor> else - \<lfloor>- x + 1 / 2\<rfloor>)"

definition decimalPlaces :: "BigNumber_js \<Rightarrow> nat \<Rightarrow> BigNumber_js" where
  "decimalPlaces x dp = of_int (round_half_up (x * 10 ^ dp)) / 10 ^ dp"

text \<open>
  Modelled from the spec: \<^verbatim>\<open>SolAmount\<close> of \<^verbatim>\<open>@/utils\<close> is not among the sources. The
  spec has it an arbitrary-precision amount of the smallest network unit, with
  comparison and subtraction.
\<close>

datatype SolAmount = SolAmount (getLamports: BigNumber_js)

definition fromLamports :: "BigNumber_js \<Rightarrow> SolAmount" where
  "fromLamports lamports = SolAmount lamports"

definition isLessThan :: "SolAmount \<Rightarrow> SolAmount \<Rightarrow> bool" where
  "isLessThan a b = (getLamports a < getLamports b)"

definition minus_amount :: "SolAmount \<Rightarrow> SolAmount \<Rightarrow> SolAmount" where
  "minus_amount a b = SolAmount (getLamports a - getLamports b)"

text \<open>
  Modelled from the spec: \<^verbatim>\<open>MetaplexFile\<close> of \<^verbatim>\<open>@/types\<close> is not among the sources.
  The spec has a file carry a byte payload, whose length is its byte count, and
  be uploaded with its content-type tag.
\<close>

type_synonym Buffer = "8 word list"

type_synonym Tags = "(string \<times> string) list"

record MetaplexFile =
  buffer :: Buffer
  fileName :: string
  contentType :: "string option"
  tags :: Tags

definition toBuffer :: "MetaplexFile \<Rightarrow> Buffer" where
  "toBuffer file = buffer file"

definition getBytes_file :: "MetaplexFile \<Rightarrow> nat" where
  "getBytes_file file = length (buffer file)"

definition getTagsWithContentType :: "MetaplexFile \<Rightarrow> Tags" where
  "getTagsWithContentType file =
     (case contentType file of
        None \<Rightarrow> tags file
      | Some c \<Rightarrow> tags file @ [(''Content-Type'', c)])"

datatype FilesOrBytes = Files "MetaplexFile list" | Bytes nat

record BundlrOptions =
  address :: "string option"
  timeout :: "nat option"
  providerUrl :: "string option"
  priceMultiplier :: "rat option"
  withdrawAfterUploading :: "bool option"

text \<open>
  \<^verbatim>\<open>metaplex.identity()\<close>: a keypair identity, which holds its secret key, or any
  other identity driver.
\<close>

datatype IdentityDriver =
    KeypairIdentityDriver (secretKey: Buffer)
  | OtherIdentityDriver string

record Metaplex =
  rpcEndpoint :: string
  metaplex_identity :: IdentityDriver

text \<open>
  The client objects of \<^verbatim>\<open>@bundlr-network/client\<close>. An object has an identity:
  \<open>object_id\<close> numbers the constructions, so that two clients built from the
  same arguments are still two clients.
\<close>

datatype BundlrClass = NodeBundlr | WebBundlr

datatype Wallet = SecretKey Buffer | Identity IdentityDriver

record BundlrConfig =
  timeout :: "nat option"
  providerUrl :: "string option"

record Bundlr =
  object_id :: nat
  class_of :: BundlrClass
  url :: string
  currency :: string
  wallet :: Wallet
  config :: BundlrConfig

type_synonym cause = string

datatype error =
    AssetUploadFailedError nat
  | BundlrWithdrawError nat
  | FailedToConnectToBundlrAddressError string cause
  | FailedToInitializeBundlrError cause
  | ClientError cause

text \<open>The calls made on the client library, in the order they are made.\<close>

datatype ClientCall =
    Call_new Bundlr
  | Call_getBundlerAddress nat string
  | Call_ready nat
  | Call_getLoadedBalance nat
  | Call_getPrice nat nat
  | Call_fund nat BigNumber_js
  | Call_upload nat Buffer Tags
  | Call_withdrawBalance nat BigNumber_js

text \<open>
  The storage network is outside the driver: it is a parameter, a state \<open>'w\<close>
  with one transition for each capability the driver uses. A call answers
  with a value or is rejected with a cause.
\<close>

record 'w Network =
  net_getBundlerAddress :: "Bundlr \<Rightarrow> string \<Rightarrow> 'w \<Rightarrow> (cause + string) \<times> 'w"
  net_ready :: "Bundlr \<Rightarrow> 'w \<Rightarrow> (cause + unit) \<times> 'w"
  net_getLoadedBalance :: "Bundlr \<Rightarrow> 'w \<Rightarrow> (cause + BigNumber_js) \<times> 'w"
  net_getPrice :: "Bundlr \<Rightarrow> nat \<Rightarrow> 'w \<Rightarrow> (cause + BigNumber_js) \<times> 'w"
  net_fund :: "Bundlr \<Rightarrow> BigNumber_js \<Rightarrow> 'w \<Rightarrow> (cause + unit) \<times> 'w"
  net_upload :: "Bundlr \<Rightarrow> Buffer \<Rightarrow> Tags \<Rightarrow> 'w \<Rightarrow> (cause + nat \<times> string) \<times> 'w"
  net_withdrawBalance :: "Bundlr \<Rightarrow> BigNumber_js \<Rightarrow> 'w \<Rightarrow> (cause + nat) \<times> 'w"

text \<open>
  The fields of the driver (\<open>bundlr\<close>, \<open>options\<close>, \<open>p_withdrawAfterUploading\<close> for
  \<^verbatim>\<open>_withdrawAfterUploading\<close>, \<open>metaplex\<close>) and what lies around it: the state of
  the network, the calls made so far, the number of client objects built.
\<close>

record 'w State =
  bundlr :: "Bundlr option"
  options :: BundlrOptions
  p_withdrawAfterUploading :: bool
  metaplex :: Metaplex
  world :: 'w
  calls :: "ClientCall list"
  objects :: nat

type_synonym ('w, 'a) async = "'w State \<Rightarrow> (error + 'a) \<times> 'w State"


section \<open>BundlrStorageDriver.ts: asynchronous functions\<close>

text \<open>
  An \<^verbatim>\<open>async\<close> function runs from a state to a result, a value or a thrown
  error, and a new state; \<open>await m f\<close> is \<^verbatim>\<open>const x = await m; f(x)\<close>. A method
  defined this way is a call that runs from its start to its return; calls that
  overlap are the subject of a section of their own below.
\<close>

definition resolve :: "'a \<Rightarrow> ('w, 'a) async" where
  "resolve x s = (Inr x, s)"

definition throw :: "error \<Rightarrow> ('w, 'a) async" where
  "throw e s = (Inl e, s)"

definition await :: "('w, 'a) async \<Rightarrow> ('a \<Rightarrow> ('w, 'b) async) \<Rightarrow> ('w, 'b) async" where
  "await m f s = (case m s of (Inl e, s') \<Rightarrow> (Inl e, s') | (Inr x, s') \<Rightarrow> f x s')"

text \<open>Reading a field of \<^verbatim>\<open>this\<close>.\<close>

definition read :: "('w State \<Rightarrow> 'a) \<Rightarrow> ('w, 'a) async" where
  "read field s = (Inr (field s), s)"

text \<open>A call on the client: it is recorded, and the network makes its transition.\<close>

definition client_call ::
  "ClientCall \<Rightarrow> ('w \<Rightarrow> (cause + 'a) \<times> 'w) \<Rightarrow> 'w State \<Rightarrow> (cause + 'a) \<times> 'w State" where
  "client_call c transition s =
     (case transition (world s) of
        (r, w') \<Rightarrow> (r, s\<lparr>world := w', calls := calls s @ [c]\<rparr>))"

text \<open>\<^verbatim>\<open>try { await call } catch (error) { throw wrap(error) }\<close>.\<close>

definition try_catch ::
  "('w State \<Rightarrow> (cause + 'a) \<times> 'w State) \<Rightarrow> (cause \<Rightarrow> error) \<Rightarrow> ('w, 'a) async" where
  "try_catch m wrap s =
     (case m s of (Inl c, s') \<Rightarrow> (Inl (wrap c), s') | (Inr x, s') \<Rightarrow> (Inr x, s'))"

text \<open>A call outside any \<^verbatim>\<open>try\<close>: a rejection goes to the caller as it is.\<close>

definition call :: "ClientCall \<Rightarrow> ('w \<Rightarrow> (cause + 'a) \<times> 'w) \<Rightarrow> ('w, 'a) async" where
  "call c transition = try_catch (client_call c transition) ClientError"

text \<open>
  \<^verbatim>\<open>xs.map(f)\<close> for an async \<open>f\<close>: the calls start in the order of the list, and
  each makes its client call in that order. The results are those of the
  promises once settled.
\<close>

fun map_async ::
  "('a \<Rightarrow> ('w, 'b) async) \<Rightarrow> 'a list \<Rightarrow> 'w State \<Rightarrow> (error + 'b) list \<times> 'w State" where
  "map_async f [] s = ([], s)"
| "map_async f (x # xs) s =
     (case f x s of
        (r, s1) \<Rightarrow> (case map_async f xs s1 of (rs, s2) \<Rightarrow> (r # rs, s2)))"

text \<open>
  \<^verbatim>\<open>Promise.all\<close>: the values in the order of the promises when all are
  fulfilled, and otherwise the error of the promise that is rejected first.
  \<open>settled\<close> lists the indices of the promises in the order they settle;
  promises it leaves out settle after the others, in the order of their indices.
\<close>

definition Promise_all :: "nat list \<Rightarrow> (error + 'a) list \<Rightarrow> error + 'a list" where
  "Promise_all settled rs =
     (case List.find (\<lambda>i. isl (rs ! i))
             (filter (\<lambda>i. i < length rs) settled @ [0..<length rs]) of
        Some i \<Rightarrow> Inl (projl (rs ! i))
      | None \<Rightarrow> Inr (map projr rs))"


section \<open>BundlrStorageDriver.ts: the driver\<close>

text \<open>
  The constructor: \<^verbatim>\<open>providerUrl\<close> defaults to the RPC endpoint of the connection,
  \<^verbatim>\<open>_withdrawAfterUploading\<close> to true; no client is built.
\<close>

definition BundlrStorageDriver :: "Metaplex \<Rightarrow> BundlrOptions \<Rightarrow> 'w \<Rightarrow> 'w State" where
  "BundlrStorageDriver mx opts w =
     \<lparr> bundlr = None,
       options = opts\<lparr> BundlrOptions.providerUrl :=
                   (case BundlrOptions.providerUrl opts of
                      None \<Rightarrow> Some (rpcEndpoint mx)
                    | Some u \<Rightarrow> Some u) \<rparr>,
       p_withdrawAfterUploading =
         (case BundlrOptions.withdrawAfterUploading opts of None \<Rightarrow> True | Some b \<Rightarrow> b),
       metaplex = mx,
       world = w,
       calls = [],
       objects = 0 \<rparr>"

text \<open>\<^verbatim>\<open>this.options?.address ?? 'https://node1.bundlr.network'\<close>.\<close>

definition bundlr_address :: "'w State \<Rightarrow> string" where
  "bundlr_address s =
     (case BundlrOptions.address (options s) of
        None \<Rightarrow> ''https://node1.bundlr.network''
      | Some a \<Rightarrow> a)"

text \<open>
  The client that \<^verbatim>\<open>getBundlr\<close> builds: a NodeBundlr over the secret key for a
  keypair identity, a WebBundlr over the identity otherwise.
\<close>

definition new_bundlr :: "'w State \<Rightarrow> Bundlr" where
  "new_bundlr s =
     (let cur = ''solana'';
          addr = bundlr_address s;
          opts = \<lparr> BundlrConfig.timeout = BundlrOptions.timeout (options s),
                   BundlrConfig.providerUrl = BundlrOptions.providerUrl (options s) \<rparr>;
          identity = metaplex_identity (metaplex s)
      in (case identity of
            KeypairIdentityDriver secret \<Rightarrow>
              \<lparr> object_id = objects s, class_of = NodeBundlr, url = addr,
                currency = cur, wallet = SecretKey secret, config = opts \<rparr>
          | OtherIdentityDriver n \<Rightarrow>
              \<lparr> object_id = objects s, class_of = WebBundlr, url = addr,
                currency = cur, wallet = Identity identity, config = opts \<rparr>))"

definition construct :: "Bundlr \<Rightarrow> ('w, Bundlr) async" where
  "construct b s = (Inr b, s\<lparr>calls := calls s @ [Call_new b], objects := Suc (objects s)\<rparr>)"

definition set_bundlr :: "Bundlr \<Rightarrow> ('w, unit) async" where
  "set_bundlr b s = (Inr (), s\<lparr>bundlr := Some b\<rparr>)"

definition getBundlr :: "'w Network \<Rightarrow> ('w, Bundlr) async" where
  "getBundlr net s =
     (case bundlr s of
        Some memoized \<Rightarrow> (Inr memoized, s)
      | None \<Rightarrow>
          await (construct (new_bundlr s)) (\<lambda>b.
          await (try_catch
                   (client_call (Call_getBundlerAddress (object_id b) ''solana'')
                      (net_getBundlerAddress net b ''solana''))
                   (FailedToConnectToBundlrAddressError (bundlr_address s))) (\<lambda>_.
          await (if class_of b = WebBundlr
                 then try_catch (client_call (Call_ready (object_id b)) (net_ready net b))
                        FailedToInitializeBundlrError
                 else resolve ()) (\<lambda>_.
          await (set_bundlr b) (\<lambda>_.
          resolve b)))) s)"

definition getBalance :: "'w Network \<Rightarrow> ('w, SolAmount) async" where
  "getBalance net =
     await (getBundlr net) (\<lambda>b.
     await (call (Call_getLoadedBalance (object_id b)) (net_getLoadedBalance net b)) (\<lambda>balance.
     resolve (fromLamports balance)))"

definition getBytes :: "FilesOrBytes \<Rightarrow> nat" where
  "getBytes filesOrBytes =
     (case filesOrBytes of
        Bytes n \<Rightarrow> n
      | Files files \<Rightarrow> foldl (\<lambda>total file. total + getBytes_file file) 0 files)"

definition getMultipliedPrice :: "'w Network \<Rightarrow> nat \<Rightarrow> ('w, BigNumber_js) async" where
  "getMultipliedPrice net bytes =
     await (getBundlr net) (\<lambda>b.
     await (call (Call_getPrice (object_id b) bytes) (net_getPrice net b bytes)) (\<lambda>price.
     await (read options) (\<lambda>opts.
     resolve (decimalPlaces
                (price * (case priceMultiplier opts of None \<Rightarrow> 3 / 2 | Some m \<Rightarrow> m)) 0))))"

definition getPrice :: "'w Network \<Rightarrow> MetaplexFile list \<Rightarrow> ('w, SolAmount) async" where
  "getPrice net files =
     await (getMultipliedPrice net (getBytes (Files files))) (\<lambda>price.
     resolve (fromLamports price))"

definition fundingNeeded ::
  "'w Network \<Rightarrow> FilesOrBytes \<Rightarrow> bool \<Rightarrow> ('w, BigNumber_js) async" where
  "fundingNeeded net filesOrBytes skipBalanceCheck =
     await (getMultipliedPrice net (getBytes filesOrBytes)) (\<lambda>price.
     if skipBalanceCheck then resolve price
     else
       await (getBundlr net) (\<lambda>b.
       await (call (Call_getLoadedBalance (object_id b)) (net_getLoadedBalance net b)) (\<lambda>balance.
       resolve (if price > balance then price - balance else 0))))"

definition needsFunding :: "'w Network \<Rightarrow> FilesOrBytes \<Rightarrow> bool \<Rightarrow> ('w, bool) async" where
  "needsFunding net filesOrBytes skipBalanceCheck =
     await (fundingNeeded net filesOrBytes skipBalanceCheck) (\<lambda>needed.
     resolve (needed > 0))"

definition fund :: "'w Network \<Rightarrow> FilesOrBytes \<Rightarrow> bool \<Rightarrow> ('w, unit) async" where
  "fund net filesOrBytes skipBalanceCheck =
     await (getBundlr net) (\<lambda>b.
     await (fundingNeeded net filesOrBytes skipBalanceCheck) (\<lambda>needed.
     if \<not> needed > 0 then resolve ()
     else call (Call_fund (object_id b) needed) (net_fund net b needed)))"

definition uploadFile :: "'w Network \<Rightarrow> MetaplexFile \<Rightarrow> ('w, string) async" where
  "uploadFile net file =
     await (getBundlr net) (\<lambda>b.
     await (call (Call_upload (object_id b) (toBuffer file) (getTagsWithContentType file))
              (net_upload net b (toBuffer file) (getTagsWithContentType file))) (\<lambda>(status, ident).
     if status \<ge> 300 then throw (AssetUploadFailedError status)
     else resolve (''https://arweave.net/'' @ ident)))"

definition withdraw :: "'w Network \<Rightarrow> BigNumber_js \<Rightarrow> ('w, unit) async" where
  "withdraw net lamports =
     await (getBundlr net) (\<lambda>b.
     await (call (Call_withdrawBalance (object_id b) lamports)
              (net_withdrawBalance net b lamports)) (\<lambda>status.
     if status \<ge> 300 then throw (BundlrWithdrawError status)
     else resolve ()))"

definition withdrawAll :: "'w Network \<Rightarrow> ('w, unit) async" where
  "withdrawAll net =
     await (getBalance net) (\<lambda>balance.
     let minimumBalance = fromLamports 5000 in
     if isLessThan balance minimumBalance then resolve ()
     else withdraw net (getLamports (minus_amount balance minimumBalance)))"

definition shouldWithdrawAfterUploading :: "'w State \<Rightarrow> bool" where
  "shouldWithdrawAfterUploading s = p_withdrawAfterUploading s"

definition withdrawAfterUploading :: "'w State \<Rightarrow> 'w State" where
  "withdrawAfterUploading s = s\<lparr>p_withdrawAfterUploading := True\<rparr>"

definition dontWithdrawAfterUploading :: "'w State \<Rightarrow> 'w State" where
  "dontWithdrawAfterUploading s = s\<lparr>p_withdrawAfterUploading := False\<rparr>"

text \<open>
  \<open>settled\<close> is the order in which the uploads of the batch settle (see
  \<open>Promise_all\<close>); a rejection ends the call at once, and the state returned is
  the one the whole batch leaves.
\<close>

definition uploadAll :: "'w Network \<Rightarrow> nat list \<Rightarrow> MetaplexFile list \<Rightarrow> ('w, string list) async" where
  "uploadAll net settled files =
     await (fund net (Files files) False) (\<lambda>_.
     await (\<lambda>s. case map_async (uploadFile net) files s of
                  (promises, s') \<Rightarrow> (Promise_all settled promises, s')) (\<lambda>uris.
     await (read shouldWithdrawAfterUploading) (\<lambda>should.
     await (if should then withdrawAll net else resolve ()) (\<lambda>_.
     resolve uris))))"

text \<open>\<^verbatim>\<open>const [uri] = await this.uploadAll([file])\<close>: the first element, if any.\<close>

definition upload :: "'w Network \<Rightarrow> MetaplexFile \<Rightarrow> ('w, string optional) async" where
  "upload net file =
     await (uploadAll net [] [file]) (\<lambda>uris.
     resolve (case uris of [] \<Rightarrow> Undefined | u # _ \<Rightarrow> Defined u))"


section \<open>BundlrStorageDriver.ts: overlapping calls of getBundlr\<close>

text \<open>
  An \<^verbatim>\<open>async\<close> function gives way at each \<^verbatim>\<open>await\<close>, and other calls on the driver
  run in between. \<^verbatim>\<open>getBundlr\<close> is the only code that writes \<^verbatim>\<open>this.bundlr\<close>, and
  it awaits twice between its test of the field and its write: at
  \<^verbatim>\<open>getBundlerAddress\<close> and, for a WebBundlr, at \<^verbatim>\<open>ready\<close>. A call of \<^verbatim>\<open>getBundlr\<close>
  is therefore a task, which is waiting at one of the two or is over.
\<close>

datatype Task =
    Awaiting_address Bundlr string
  | Awaiting_ready Bundlr
  | Returned Bundlr
  | Thrown error

text \<open>
  From the call to the first \<^verbatim>\<open>await\<close>: the stored client is returned when there
  is one; otherwise a client is built and the reachability request is sent.
\<close>

definition getBundlr_start :: "'w State \<Rightarrow> Task \<times> 'w State" where
  "getBundlr_start s =
     (case bundlr s of
        Some memoized \<Rightarrow> (Returned memoized, s)
      | None \<Rightarrow>
          (Awaiting_address (new_bundlr s) (bundlr_address s),
           s\<lparr>calls := calls s @ [Call_new (new_bundlr s),
                                  Call_getBundlerAddress (object_id (new_bundlr s)) ''solana''],
             objects := Suc (objects s)\<rparr>))"

text \<open>
  From an \<^verbatim>\<open>await\<close>, when the network answers, to the next one or to the end. The
  client is stored in the last stretch, without another look at the field.
\<close>

fun getBundlr_resume :: "'w Network \<Rightarrow> Task \<Rightarrow> 'w State \<Rightarrow> Task \<times> 'w State" where
  "getBundlr_resume net (Awaiting_address b addr) s =
     (case net_getBundlerAddress net b ''solana'' (world s) of
        (Inl c, w) \<Rightarrow> (Thrown (FailedToConnectToBundlrAddressError addr c), s\<lparr>world := w\<rparr>)
      | (Inr a, w) \<Rightarrow>
          if class_of b = WebBundlr
          then (Awaiting_ready b, s\<lparr>world := w, calls := calls s @ [Call_ready (object_id b)]\<rparr>)
          else (Returned b, s\<lparr>bundlr := Some b, world := w\<rparr>))"
| "getBundlr_resume net (Awaiting_ready b) s =
     (case net_ready net b (world s) of
        (Inl c, w) \<Rightarrow> (Thrown (FailedToInitializeBundlrError c), s\<lparr>world := w\<rparr>)
      | (Inr u, w) \<Rightarrow> (Returned b, s\<lparr>bundlr := Some b, world := w\<rparr>))"
| "getBundlr_resume net (Returned b) s = (Returned b, s)"
| "getBundlr_resume net (Thrown e) s = (Thrown e, s)"

fun outcome :: "Task \<Rightarrow> (error + Bundlr) option" where
  "outcome (Returned b) = Some (Inr b)"
| "outcome (Thrown e) = Some (Inl e)"
| "outcome (Awaiting_address b addr) = None"
| "outcome (Awaiting_ready b) = None"

fun suspended :: "Task \<Rightarrow> bool" where
  "suspended (Awaiting_address b addr) = True"
| "suspended (Awaiting_ready b) = True"
| "suspended (Returned b) = False"
| "suspended (Thrown e) = False"

text \<open>A call of \<^verbatim>\<open>getBundlr\<close> that nothing interrupts: its stretches one after another.\<close>

definition getBundlr_alone :: "'w Network \<Rightarrow> 'w State \<Rightarrow> Task \<times> 'w State" where
  "getBundlr_alone net s =
     (case getBundlr_start s of
        (t1, s1) \<Rightarrow>
          (case getBundlr_resume net t1 s1 of
             (t2, s2) \<Rightarrow> getBundlr_resume net t2 s2))"

text \<open>
  What can happen on a driver between two stretches of a call of \<^verbatim>\<open>getBundlr\<close>:
  another call of \<^verbatim>\<open>getBundlr\<close> starts (from any method of the driver); the
  \<open>i\<close>-th call made so far goes on from its \<^verbatim>\<open>await\<close>; a method makes one of its
  calls on the client, to which the network reacts; the flag is set
  (\<^verbatim>\<open>withdrawAfterUploading\<close>, \<^verbatim>\<open>dontWithdrawAfterUploading\<close>); the application gives
  the Metaplex instance another identity. The methods of the driver do nothing
  else to its fields.
\<close>

datatype 'w Action =
    Start
  | Resume nat
  | Client_call ClientCall "'w \<Rightarrow> 'w"
  | Set_withdrawAfterUploading bool
  | Use_identity IdentityDriver

fun act :: "'w Network \<Rightarrow> 'w Action \<Rightarrow> 'w State \<times> Task list \<Rightarrow> 'w State \<times> Task list" where
  "act net Start (s, ts) = (case getBundlr_start s of (t, s1) \<Rightarrow> (s1, ts @ [t]))"
| "act net (Resume i) (s, ts) =
     (if i < length ts
      then (case getBundlr_resume net (ts ! i) s of (t, s1) \<Rightarrow> (s1, ts[i := t]))
      else (s, ts))"
| "act net (Client_call c reaction) (s, ts) =
     (s\<lparr>world := reaction (world s), calls := calls s @ [c]\<rparr>, ts)"
| "act net (Set_withdrawAfterUploading v) (s, ts) = (s\<lparr>p_withdrawAfterUploading := v\<rparr>, ts)"
| "act net (Use_identity i) (s, ts) =
     (s\<lparr>metaplex := (metaplex s)\<lparr>metaplex_identity := i\<rparr>\<rparr>, ts)"

fun schedule ::
  "'w Network \<Rightarrow> 'w Action list \<Rightarrow> 'w State \<times> Task list \<Rightarrow> 'w State \<times> Task list" where
  "schedule net [] cfg = cfg"
| "schedule net (a # as) cfg = schedule net as (act net a cfg)"

text \<open>The client a finished call returned, by its number.\<close>

fun returned_id :: "Task \<Rightarrow> nat option" where
  "returned_id (Returned b) = Some (object_id b)"
| "returned_id t = None"

text \<open>The calls of \<^verbatim>\<open>getBundlr\<close> that initialize a client.\<close>

fun is_initialization :: "ClientCall \<Rightarrow> bool" where
  "is_initialization (Call_new b) = True"
| "is_initialization (Call_getBundlerAddress i c) = True"
| "is_initialization (Call_ready i) = True"
| "is_initialization (Call_getLoadedBalance i) = False"
| "is_initialization (Call_getPrice i n) = False"
| "is_initialization (Call_fund i a) = False"
| "is_initialization (Call_upload i b t) = False"
| "is_initialization (Call_withdrawBalance i a) = False"

fun is_upload :: "ClientCall \<Rightarrow> bool" where
  "is_upload (Call_upload i b t) = True"
| "is_upload c = False"

fun is_withdrawal :: "ClientCall \<Rightarrow> bool" where
  "is_withdrawal (Call_withdrawBalance i a) = True"
| "is_withdrawal c = False"

text \<open>
  The client calls that the methods make themselves are those that do not
  initialize a client: initialization is left to \<^verbatim>\<open>getBundlr\<close>.
\<close>

fun by_method :: "'w Action \<Rightarrow> bool" where
  "by_method (Client_call c reaction) = (\<not> is_initialization c)"
| "by_method a = True"


section \<open>A sample network\<close>

text \<open>
  A small network for closed instances: a node that is reachable or not, a
  wallet that completes its handshake or not, a funded balance, a price per
  byte, the answers the node gives to the uploads in turn (\<open>(200, ''tx'')\<close> once
  they run out) and the status it gives to a withdrawal.
\<close>

record World =
  w_reachable :: bool
  w_handshake :: bool
  w_balance :: rat
  w_byte_price :: rat
  w_answers :: "(nat \<times> string) list"
  w_withdraw_status :: nat

definition sample_network :: "World Network" where
  "sample_network =
     \<lparr> net_getBundlerAddress =
         (\<lambda>b c w. (if w_reachable w then Inr ''node'' else Inl ''ECONNREFUSED'', w)),
       net_ready =
         (\<lambda>b w. (if w_handshake w then Inr () else Inl ''wallet not connected'', w)),
       net_getLoadedBalance = (\<lambda>b w. (Inr (w_balance w), w)),
       net_getPrice = (\<lambda>b n w. (Inr (w_byte_price w * of_nat n), w)),
       net_fund = (\<lambda>b amount w. (Inr (), w\<lparr>w_balance := w_balance w + amount\<rparr>)),
       net_upload =
         (\<lambda>b payload t w.
            case w_answers w of
              [] \<Rightarrow> (Inr (200, ''tx''), w)
            | r # rs \<Rightarrow> (Inr r, w\<lparr>w_answers := rs\<rparr>)),
       net_withdrawBalance =
         (\<lambda>b amount w.
            (Inr (w_withdraw_status w),
             if w_withdraw_status w < 300 then w\<lparr>w_balance := w_balance w - amount\<rparr> else w)) \<rparr>"

definition sample_world :: World where
  "sample_world =
     \<lparr> w_reachable = True, w_handshake = True, w_balance = 0, w_byte_price = 5,
       w_answers = [], w_withdraw_status = 200 \<rparr>"

definition sample_options :: BundlrOptions where
  "sample_options =
     \<lparr> BundlrOptions.address = None, BundlrOptions.timeout = None,
       BundlrOptions.providerUrl = None, priceMultiplier = None,
       withdrawAfterUploading = None \<rparr>"

definition keypair_metaplex :: Metaplex where
  "keypair_metaplex =
     \<lparr> rpcEndpoint = ''https://api.devnet.solana.com'',
       metaplex_identity = KeypairIdentityDriver [1, 2, 3] \<rparr>"

definition wallet_metaplex :: Metaplex where
  "wallet_metaplex =
     \<lparr> rpcEndpoint = ''https://api.devnet.solana.com'',
       metaplex_identity = OtherIdentityDriver ''walletAdapter'' \<rparr>"

definition file1 :: MetaplexFile where
  "file1 = \<lparr> buffer = [1, 2, 3], fileName = ''a.png'', contentType = Some ''image/png'', tags = [] \<rparr>"

definition file2 :: MetaplexFile where
  "file2 = \<lparr> buffer = [4, 5], fileName = ''b.json'', contentType = None, tags = [] \<rparr>"

definition sample_account :: MetadataAccount where
  "sample_account =
     \<lparr> MetadataAccount.publicKey = PublicKey ''metadata'',
       MetadataAccount.data =
         \<lparr> updateAuthority = PublicKey ''authority'',
           mint = PublicKey ''mint'',
           MetadataArgs.data =
             \<lparr> Data.name = ''MyNFT'' @ [CHR 0x00, CHR 0x00, CHR 0x00],
               Data.symbol = ''MY'' @ [CHR 0x00],
               Data.uri = ''https://arweave.net/abc'',
               Data.sellerFeeBasisPoints = 250,
               Data.creators = None \<rparr>,
           MetadataArgs.primarySaleHappened = False,
           MetadataArgs.isMutable = True,
           MetadataArgs.editionNonce = Some 255,
           MetadataArgs.tokenStandard = Some NonFungible,
           MetadataArgs.collection = None,
           MetadataArgs.collectionDetails = None,
           MetadataArgs.uses = None \<rparr> \<rparr>"

definition sample_pda :: "PublicKey \<Rightarrow> Pda" where
  "sample_pda k = \<lparr> Pda.publicKey = k, bump = 255 \<rparr>"


section \<open>Notions used in the proofs\<close>

text \<open>
  What the network answers to the uploads of a batch, made on the client \<open>b\<close> in
  the order of the files, and the calls those uploads are.
\<close>

fun upload_answers ::
  "'w Network \<Rightarrow> Bundlr \<Rightarrow> MetaplexFile list \<Rightarrow> 'w \<Rightarrow> (cause + nat \<times> string) list \<times> 'w" where
  "upload_answers net b [] w = ([], w)"
| "upload_answers net b (file # files) w =
     (case net_upload net b (toBuffer file) (getTagsWithContentType file) w of
        (r, w1) \<Rightarrow> (case upload_answers net b files w1 of (rs, w2) \<Rightarrow> (r # rs, w2)))"

definition upload_calls :: "Bundlr \<Rightarrow> MetaplexFile list \<Rightarrow> ClientCall list" where
  "upload_calls b files =
     map (\<lambda>file. Call_upload (object_id b) (toBuffer file) (getTagsWithContentType file)) files"

text \<open>What \<open>uploadFile\<close> makes of an answer of the network.\<close>

definition upload_result :: "cause + nat \<times> string \<Rightarrow> error + string" where
  "upload_result r =
     (case r of
        Inl c \<Rightarrow> Inl (ClientError c)
      | Inr (status, ident) \<Rightarrow>
          if status \<ge> 300 then Inl (AssetUploadFailedError status)
          else Inr (''https://arweave.net/'' @ ident))"

text \<open>A driver just constructed, with the sample options, on a state of the sample network.\<close>

definition fresh_driver :: "Metaplex \<Rightarrow> World \<Rightarrow> World State" where
  "fresh_driver mx w = BundlrStorageDriver mx sample_options w"


section \<open>Metadata.ts: properties\<close>

lemma takeWhile_eq_replicate:
  "takeWhile (\<lambda>c. c = a) xs = replicate (length (takeWhile (\<lambda>c. c = a) xs)) a"
  by (induction xs) auto

lemma removeEmptyChars_padding:
  "v = removeEmptyChars v @ replicate (length (takeWhile (\<lambda>c. c = CHR 0x00) (rev v))) (CHR 0x00)"
proof -
  let ?P = "\<lambda>c. c = CHR 0x00"
  have "v = rev (dropWhile ?P (rev v)) @ rev (takeWhile ?P (rev v))"
    by (metis takeWhile_dropWhile_id rev_append rev_rev_ident)
  moreover have "rev (takeWhile ?P (rev v)) = replicate (length (takeWhile ?P (rev v))) (CHR 0x00)"
    using takeWhile_eq_replicate [of "CHR 0x00" "rev v"] by (metis rev_replicate)
  ultimately show ?thesis
    by (simp add: removeEmptyChars_def)
qed

lemma removeEmptyChars_last:
  "removeEmptyChars v = [] \<or> last (removeEmptyChars v) \<noteq> CHR 0x00"
proof (cases "dropWhile (\<lambda>c. c = CHR 0x00) (rev v)")
  case Nil
  then show ?thesis by (simp add: removeEmptyChars_def)
next
  case (Cons x xs)
  then have "x \<noteq> CHR 0x00"
    using hd_dropWhile [of "\<lambda>c. c = CHR 0x00" "rev v"] by auto
  with Cons show ?thesis by (simp add: removeEmptyChars_def)
qed

lemma removeEmptyChars_unpadded:
  "v = [] \<or> last v \<noteq> CHR 0x00 \<Longrightarrow> removeEmptyChars v = v"
  by (cases v rule: rev_cases) (auto simp: removeEmptyChars_def)

text \<open>
  C4. With the json argument left out, \<open>jsonLoaded\<close> is false and \<open>json\<close> is null.
  With a second argument \<open>doc\<close>, a document or null, \<open>jsonLoaded\<close> is true and
  \<open>json\<close> is \<open>doc\<close>; the last two conjuncts spell out the case of null.
\<close>

theorem toMetadata_json_loaded:
  "jsonLoaded (toMetadata findMetadataPda account Undefined) = False
   \<and> json (toMetadata findMetadataPda account Undefined) = None
   \<and> jsonLoaded (toMetadata findMetadataPda account (Defined doc)) = True
   \<and> json (toMetadata findMetadataPda account (Defined doc)) = doc
   \<and> jsonLoaded (toMetadata findMetadataPda account (Defined None)) = True
   \<and> json (toMetadata findMetadataPda account (Defined None)) = None"
  by (simp add: toMetadata_def split: option.split)

text \<open>
  C7. On \<^verbatim>\<open>null\<close> the predicate does not answer false: \<^verbatim>\<open>typeof null\<close> is
  \<^verbatim>\<open>'object'\<close>, so the property \<^verbatim>\<open>model\<close> is read on \<^verbatim>\<open>null\<close> and that read raises a
  TypeError, in \<open>isMetadata\<close> and so in \<open>assertMetadata\<close>, which raises that error
  and not the assertion failure.
\<close>

theorem isMetadata_null_raises:
  "isMetadata JNull = Inl TypeError \<and> assertMetadata JNull = Inl TypeError"
  by (simp add: isMetadata_def assertMetadata_def)

text \<open>
  On every other value the predicate answers, true exactly for an object whose
  \<^verbatim>\<open>model\<close> is \<^verbatim>\<open>'metadata'\<close>, and the assertion fails exactly when it answers false.
\<close>

lemma isMetadata_not_null:
  "v \<noteq> JNull \<Longrightarrow>
   isMetadata v = Inr (\<exists>ps. v = JObject ps \<and> map_of ps ''model'' = Some (JString ''metadata''))"
  by (cases v) (auto simp: isMetadata_def split: option.splits)

lemma assertMetadata_not_null:
  "v \<noteq> JNull \<Longrightarrow>
   assertMetadata v =
     (if isMetadata v = Inr True then Inr ()
      else Inl (AssertionError ''Expected Metadata model''))"
  by (cases v) (auto simp: isMetadata_def assertMetadata_def assert_def split: option.splits)

text \<open>
  C9. The \<open>name\<close>, \<open>symbol\<close> and \<open>uri\<close> of the result are the raw fields of the
  account with their padding removed, and nothing else is done to them. The
  raw name \<^verbatim>\<open>"MyNFT\0\0\0"\<close> gives \<^verbatim>\<open>"MyNFT"\<close>. For every raw string, the result
  followed by some number of null characters is the raw string again, the
  result does not end in a null character, and a raw string that does not end
  in one is returned as it is.
\<close>

theorem toMetadata_strips_padding:
  "Metadata.name (toMetadata findMetadataPda account json_arg)
     = removeEmptyChars (Data.name (MetadataArgs.data (MetadataAccount.data account)))
   \<and> Metadata.symbol (toMetadata findMetadataPda account json_arg)
     = removeEmptyChars (Data.symbol (MetadataArgs.data (MetadataAccount.data account)))
   \<and> Metadata.uri (toMetadata findMetadataPda account json_arg)
     = removeEmptyChars (Data.uri (MetadataArgs.data (MetadataAccount.data account)))
   \<and> removeEmptyChars (''MyNFT'' @ [CHR 0x00, CHR 0x00, CHR 0x00]) = ''MyNFT''
   \<and> (\<exists>k. raw = removeEmptyChars raw @ replicate k (CHR 0x00))
   \<and> (removeEmptyChars raw = [] \<or> last (removeEmptyChars raw) \<noteq> CHR 0x00)
   \<and> (raw = [] \<or> last raw \<noteq> CHR 0x00 \<longrightarrow> removeEmptyChars raw = raw)"
proof -
  have "removeEmptyChars (''MyNFT'' @ [CHR 0x00, CHR 0x00, CHR 0x00]) = ''MyNFT''"
    by (simp add: removeEmptyChars_def)
  moreover have "\<exists>k. raw = removeEmptyChars raw @ replicate k (CHR 0x00)"
    using removeEmptyChars_padding [of raw] by blast
  ultimately show ?thesis
    using removeEmptyChars_last [of raw] removeEmptyChars_unpadded [of raw]
    by (simp add: toMetadata_def)
qed

theorem toMetadata_strips_padding_witness:
  "Metadata.name (toMetadata sample_pda sample_account Undefined) = ''MyNFT''
   \<and> Metadata.symbol (toMetadata sample_pda sample_account Undefined) = ''MY''
   \<and> Metadata.uri (toMetadata sample_pda sample_account Undefined) = ''https://arweave.net/abc''
   \<and> removeEmptyChars ''MY'' = ''MY''"
  using toMetadata_strips_padding [of sample_pda sample_account Undefined "''MY''"]
  by (simp add: sample_account_def removeEmptyChars_def)

text \<open>
  C10. Whatever the account and the json argument, the record that \<open>toMetadata\<close>
  returns has \<open>model\<close> equal to \<^verbatim>\<open>'metadata'\<close>; \<open>isMetadata\<close> answers true on it and
  \<open>assertMetadata\<close> returns normally.
\<close>

theorem toMetadata_is_metadata:
  "model (toMetadata findMetadataPda account json_arg) = ''metadata''
   \<and> isMetadata (js_of_Metadata (toMetadata findMetadataPda account json_arg)) = Inr True
   \<and> assertMetadata (js_of_Metadata (toMetadata findMetadataPda account json_arg)) = Inr ()"
  by (simp add: isMetadata_def assertMetadata_def assert_def js_of_Metadata_def toMetadata_def)


section \<open>BundlrStorageDriver.ts: the client handle\<close>

lemmas async_defs =
  await_def resolve_def throw_def read_def call_def try_catch_def client_call_def

lemmas sample_defs =
  fresh_driver_def BundlrStorageDriver_def sample_network_def sample_world_def sample_options_def
  keypair_metaplex_def wallet_metaplex_def file1_def file2_def

lemmas driver_defs =
  getBundlr_def construct_def set_bundlr_def new_bundlr_def bundlr_address_def
  getBalance_def getBytes_def getBytes_file_def getMultipliedPrice_def getPrice_def
  fundingNeeded_def needsFunding_def fund_def uploadFile_def withdraw_def withdrawAll_def
  uploadAll_def upload_def toBuffer_def getTagsWithContentType_def
  fromLamports_def isLessThan_def minus_amount_def decimalPlaces_def round_half_up_def
  shouldWithdrawAfterUploading_def withdrawAfterUploading_def dontWithdrawAfterUploading_def
  Promise_all_def Let_def

lemma getBundlr_held: "bundlr s = Some b \<Longrightarrow> getBundlr net s = (Inr b, s)"
  by (simp add: getBundlr_def)



lemma getBundlr_Inr_bundlr:
  assumes "getBundlr net s = (Inr b, s1)"
  shows "bundlr s1 = Some b"
proof (cases "bundlr s")
  case (Some m)
  with assms show ?thesis by (simp add: getBundlr_def)
next
  case None
  with assms show ?thesis
    by (auto simp: getBundlr_def construct_def set_bundlr_def async_defs
             split: prod.splits sum.splits if_splits)
qed

lemma getBundlr_options: "getBundlr net s = (r, s1) \<Longrightarrow> options s1 = options s"
  by (cases "bundlr s")
     (auto simp: getBundlr_def construct_def set_bundlr_def async_defs
           split: prod.splits sum.splits if_splits)




section \<open>BundlrStorageDriver.ts: memoization\<close>

lemma getBundlr_alone_eq:
  "outcome (fst (getBundlr_alone net s)) = Some (fst (getBundlr net s))
   \<and> snd (getBundlr_alone net s) = snd (getBundlr net s)"
  by (cases "bundlr s")
     (auto simp: getBundlr_alone_def getBundlr_start_def getBundlr_def construct_def set_bundlr_def
                 async_defs split: prod.splits sum.splits)

lemma getBundlr_start_held: "bundlr s = Some b \<Longrightarrow> getBundlr_start s = (Returned b, s)"
  by (simp add: getBundlr_start_def)

lemma resume_not_suspended: "\<not> suspended t \<Longrightarrow> getBundlr_resume net t s = (t, s)"
  by (cases t) simp_all

lemma act_settled:
  assumes "bundlr s = Some b" and "\<forall>t\<in>set ts. \<not> suspended t" and "by_method a"
      and "act net a (s, ts) = (s1, ts1)"
  shows "bundlr s1 = Some b
       \<and> filter is_initialization (calls s1) = filter is_initialization (calls s)
       \<and> (\<exists>started. ts1 = ts @ started \<and> (\<forall>t\<in>set started. t = Returned b))"
proof (cases a)
  case Start
  with assms show ?thesis by (auto simp: getBundlr_start_held)
next
  case (Resume i)
  show ?thesis
  proof (cases "i < length ts")
    case True
    then have "\<not> suspended (ts ! i)" using assms(2) by simp
    then have "getBundlr_resume net (ts ! i) s = (ts ! i, s)" by (rule resume_not_suspended)
    with True Resume assms show ?thesis by auto
  next
    case False
    with Resume assms show ?thesis by auto
  qed
next
  case (Client_call c reaction)
  with assms show ?thesis by auto
next
  case (Set_withdrawAfterUploading v)
  with assms show ?thesis by auto
next
  case (Use_identity i)
  with assms show ?thesis by auto
qed

lemma schedule_settled:
  assumes "bundlr s = Some b" and "\<forall>t\<in>set ts. \<not> suspended t" and "\<forall>a\<in>set actions. by_method a"
  shows "bundlr (fst (schedule net actions (s, ts))) = Some b
       \<and> filter is_initialization (calls (fst (schedule net actions (s, ts))))
           = filter is_initialization (calls s)
       \<and> (\<exists>started. snd (schedule net actions (s, ts)) = ts @ started
             \<and> (\<forall>t\<in>set started. t = Returned b))"
  using assms
proof (induction actions arbitrary: s ts)
  case Nil
  then show ?case by simp
next
  case (Cons a actions)
  obtain s1 ts1 where a: "act net a (s, ts) = (s1, ts1)"
    by (cases "act net a (s, ts)")
  have by_a: "by_method a" using Cons.prems(3) by simp
  from act_settled [OF Cons.prems(1,2) by_a a]
  obtain started where s1: "bundlr s1 = Some b"
    and i1: "filter is_initialization (calls s1) = filter is_initialization (calls s)"
    and t1: "ts1 = ts @ started" and r1: "\<forall>t\<in>set started. t = Returned b"
    by blast
  have quiet: "\<forall>t\<in>set ts1. \<not> suspended t"
    using Cons.prems(2) t1 r1 by auto
  have rest: "\<forall>a\<in>set actions. by_method a" using Cons.prems(3) by simp
  from Cons.IH [OF s1 quiet rest]
  obtain later where
    "bundlr (fst (schedule net actions (s1, ts1))) = Some b"
    "filter is_initialization (calls (fst (schedule net actions (s1, ts1))))
       = filter is_initialization (calls s1)"
    "snd (schedule net actions (s1, ts1)) = ts1 @ later" "\<forall>t\<in>set later. t = Returned b"
    by blast
  with a i1 t1 r1 show ?case
    by (intro conjI exI [of _ "started @ later"]) auto
qed

text \<open>
  C5, as the code has it. The constructor builds no client and makes no call;
  the first call of \<open>getBundlr\<close> on a driver that holds none builds one. A call
  that succeeds with a client has stored it, and the stretches of a call that
  nothing interrupts make up \<open>getBundlr\<close>. Suppose now that the driver holds the
  client \<open>b\<close> and that no call of \<open>getBundlr\<close> is waiting at an \<^verbatim>\<open>await\<close>. Then,
  however the calls of the methods overlap from there on, the driver holds \<open>b\<close>
  for good, every call of \<open>getBundlr\<close> started from there on returns \<open>b\<close> at once,
  and no initialization call (construction, reachability check, handshake) is
  made any more.
\<close>

theorem getBundlr_memoized:
  assumes "bundlr (s :: 'w State) = Some b"
      and "\<forall>t\<in>set ts. \<not> suspended t"
      and "\<forall>a\<in>set actions. by_method a"
  shows "bundlr (fst (schedule net actions (s, ts))) = Some b
       \<and> getBundlr net (fst (schedule net actions (s, ts)))
           = (Inr b, fst (schedule net actions (s, ts)))
       \<and> filter is_initialization (calls (fst (schedule net actions (s, ts))))
           = filter is_initialization (calls s)
       \<and> (\<exists>started. snd (schedule net actions (s, ts)) = ts @ started
             \<and> (\<forall>t\<in>set started. t = Returned b))
       \<and> (\<forall>s0 s1 b0. getBundlr net s0 = (Inr b0, s1) \<longrightarrow> bundlr s1 = Some b0)
       \<and> (\<forall>s0. outcome (fst (getBundlr_alone net s0)) = Some (fst (getBundlr net s0))
                \<and> snd (getBundlr_alone net s0) = snd (getBundlr net s0))
       \<and> (\<forall>s0 :: 'w State. bundlr s0 = None \<longrightarrow>
              fst (getBundlr_start s0) = Awaiting_address (new_bundlr s0) (bundlr_address s0))
       \<and> bundlr (BundlrStorageDriver mx opts (w :: 'w)) = None
       \<and> calls (BundlrStorageDriver mx opts (w :: 'w)) = []"
proof -
  let ?s = "fst (schedule net actions (s, ts))"
  have main: "bundlr ?s = Some b
       \<and> filter is_initialization (calls ?s) = filter is_initialization (calls s)
       \<and> (\<exists>started. snd (schedule net actions (s, ts)) = ts @ started
             \<and> (\<forall>t\<in>set started. t = Returned b))"
    using assms by (rule schedule_settled)
  then have held: "getBundlr net ?s = (Inr b, ?s)"
    by (simp add: getBundlr_held)
  have stored: "\<forall>s0 s1 b0. getBundlr net s0 = (Inr b0, s1) \<longrightarrow> bundlr s1 = Some b0"
    using getBundlr_Inr_bundlr by blast
  have alone: "\<forall>s0. outcome (fst (getBundlr_alone net s0)) = Some (fst (getBundlr net s0))
                \<and> snd (getBundlr_alone net s0) = snd (getBundlr net s0)"
    using getBundlr_alone_eq by blast
  have first: "\<forall>s0 :: 'w State. bundlr s0 = None \<longrightarrow>
              fst (getBundlr_start s0) = Awaiting_address (new_bundlr s0) (bundlr_address s0)"
    by (simp add: getBundlr_start_def)
  have fresh: "bundlr (BundlrStorageDriver mx opts (w :: 'w)) = None
       \<and> calls (BundlrStorageDriver mx opts (w :: 'w)) = []"
    by (simp add: BundlrStorageDriver_def)
  show ?thesis
    using main held stored alone first fresh by blast
qed

theorem getBundlr_memoized_witness:
  "bundlr (snd (getBundlr sample_network (fresh_driver wallet_metaplex sample_world)))
     = Some (new_bundlr (fresh_driver wallet_metaplex sample_world))
   \<and> map returned_id
       (snd (schedule sample_network
               [Start, Client_call (Call_getPrice 0 5) id, Use_identity (KeypairIdentityDriver [9]),
                Start, Resume 0, Set_withdrawAfterUploading False, Resume 1, Start]
               (snd (getBundlr sample_network (fresh_driver wallet_metaplex sample_world)),
                [Returned (new_bundlr (fresh_driver wallet_metaplex sample_world))])))
     = [Some 0, Some 0, Some 0, Some 0]
   \<and> filter is_initialization
       (calls (fst (schedule sample_network
               [Start, Client_call (Call_getPrice 0 5) id, Use_identity (KeypairIdentityDriver [9]),
                Start, Resume 0, Set_withdrawAfterUploading False, Resume 1, Start]
               (snd (getBundlr sample_network (fresh_driver wallet_metaplex sample_world)),
                [Returned (new_bundlr (fresh_driver wallet_metaplex sample_world))]))))
     = [Call_new (new_bundlr (fresh_driver wallet_metaplex sample_world)),
        Call_getBundlerAddress 0 ''solana'', Call_ready 0]"
proof -
  let ?fresh = "fresh_driver wallet_metaplex sample_world"
  let ?b = "new_bundlr ?fresh"
  let ?s = "snd (getBundlr sample_network ?fresh)"
  let ?actions = "[Start, Client_call (Call_getPrice 0 5) id, Use_identity (KeypairIdentityDriver [9]),
                   Start, Resume 0, Set_withdrawAfterUploading False, Resume 1, Start]
                  :: World Action list"
  have held: "bundlr ?s = Some ?b"
    by (simp add: sample_defs driver_defs async_defs)
  have quiet: "\<forall>t\<in>set [Returned ?b]. \<not> suspended t"
    by simp
  have methods: "\<forall>a\<in>set ?actions. by_method a"
    by simp
  have before: "filter is_initialization (calls ?s)
                  = [Call_new ?b, Call_getBundlerAddress 0 ''solana'', Call_ready 0]"
    "object_id ?b = 0"
    by (simp_all add: sample_defs driver_defs async_defs)
  obtain started where
    "snd (schedule sample_network ?actions (?s, [Returned ?b])) = [Returned ?b] @ started"
    "\<forall>t\<in>set started. t = Returned ?b"
    "filter is_initialization (calls (fst (schedule sample_network ?actions (?s, [Returned ?b]))))
       = filter is_initialization (calls ?s)"
    using getBundlr_memoized [OF held quiet methods, of sample_network] by blast
  moreover have "length (snd (schedule sample_network ?actions (?s, [Returned ?b]))) = 4"
    by (simp split: prod.splits)
  ultimately have "map returned_id (snd (schedule sample_network ?actions (?s, [Returned ?b])))
                     = [Some 0, Some 0, Some 0, Some 0]
      \<and> filter is_initialization (calls (fst (schedule sample_network ?actions (?s, [Returned ?b]))))
          = [Call_new ?b, Call_getBundlerAddress 0 ''solana'', Call_ready 0]"
    using before by (auto simp: length_Suc_conv numeral_eq_Suc)
  with held show ?thesis
    by blast
qed

text \<open>
  Two first calls that overlap. The first call finds no client and waits; the
  second finds none either and waits. The first goes on to its end and stores
  client 0; a third call, made now, returns client 0. Then the second call goes
  on: it makes its handshake, on client 1, and stores client 1; a fourth call
  returns client 1. Two clients have been built.
\<close>

theorem getBundlr_race_counterexample:
  "map returned_id
     (snd (schedule sample_network [Start, Start, Resume 0, Resume 0, Start, Resume 1, Resume 1, Start]
             (fresh_driver wallet_metaplex sample_world, [])))
     = [Some 0, Some 1, Some 0, Some 1]
   \<and> drop 5 (calls (fst (schedule sample_network
                           [Start, Start, Resume 0, Resume 0, Start, Resume 1, Resume 1, Start]
                           (fresh_driver wallet_metaplex sample_world, []))))
     = [Call_ready 1]
   \<and> objects (fst (schedule sample_network
                      [Start, Start, Resume 0, Resume 0, Start, Resume 1, Resume 1, Start]
                      (fresh_driver wallet_metaplex sample_world, []))) = 2"
  by (simp add: sample_defs getBundlr_start_def new_bundlr_def bundlr_address_def Let_def)


section \<open>BundlrStorageDriver.ts: prices and funding\<close>

lemma foldl_add_sum_list:
  "foldl (\<lambda>total file. total + g file) (a::nat) xs = a + sum_list (map g xs)"
  by (induction xs arbitrary: a) simp_all

lemma getBytes_Files:
  "getBytes (Files files) = sum_list (map (\<lambda>file. length (buffer file)) files)"
  by (simp add: getBytes_def getBytes_file_def foldl_add_sum_list)

lemma round_half_up_near: "\<bar>of_int (round_half_up x) - x\<bar> \<le> 1 / 2"
proof (cases "0 \<le> x")
  case True
  have "of_int \<lfloor>x + 1 / 2\<rfloor> \<le> x + 1 / 2" "x + 1 / 2 < of_int \<lfloor>x + 1 / 2\<rfloor> + 1"
    by linarith+
  then have "\<bar>of_int \<lfloor>x + 1 / 2\<rfloor> - x\<bar> \<le> 1 / 2"
    by linarith
  with True show ?thesis by (simp only: round_half_up_def if_True)
next
  case False
  have "of_int \<lfloor>- x + 1 / 2\<rfloor> \<le> - x + 1 / 2" "- x + 1 / 2 < of_int \<lfloor>- x + 1 / 2\<rfloor> + 1"
    by linarith+
  then have "\<bar>- of_int \<lfloor>- x + 1 / 2\<rfloor> - x\<bar> \<le> 1 / 2"
    by linarith
  then have "\<bar>of_int (- \<lfloor>- x + 1 / 2\<rfloor>) - x\<bar> \<le> 1 / 2"
    by (simp only: of_int_minus)
  with False show ?thesis by (simp only: round_half_up_def if_False)
qed

lemma decimalPlaces_0: "decimalPlaces x 0 = of_int (round_half_up x)"
  by (simp add: decimalPlaces_def)

lemma getMultipliedPrice_eq:
  assumes "getBundlr net s = (Inr b, s1)"
      and "net_getPrice net b bytes (world s1) = (Inr p, w2)"
  shows "getMultipliedPrice net bytes s =
           (Inr (decimalPlaces
                   (p * (case priceMultiplier (options s) of None \<Rightarrow> 3 / 2 | Some m \<Rightarrow> m)) 0),
            s1\<lparr>world := w2, calls := calls s1 @ [Call_getPrice (object_id b) bytes]\<rparr>)"
  using assms getBundlr_options [OF assms(1)]
  by (simp add: getMultipliedPrice_def async_defs)

text \<open>
  C8. When the client is there (\<open>getBundlr\<close> succeeds) and the network quotes the
  price \<open>p\<close> for the sum of the byte lengths of the files, \<open>getPrice\<close> asks the
  price of exactly that many bytes, once, and returns \<open>p\<close> times the configured
  multiplier, \<open>3 / 2\<close> when none is configured, rounded to an integer: the amount
  returned is an integer at most one half away from the product.
\<close>

theorem getPrice_marked_up:
  assumes "getBundlr net s = (Inr b, s1)"
      and "net_getPrice net b (sum_list (map (\<lambda>file. length (buffer file)) files)) (world s1)
             = (Inr p, w2)"
  shows "getPrice net files s =
           (Inr (fromLamports
                   (decimalPlaces
                      (p * (case priceMultiplier (options s) of None \<Rightarrow> 3 / 2 | Some m \<Rightarrow> m)) 0)),
            s1\<lparr>world := w2,
               calls := calls s1
                 @ [Call_getPrice (object_id b) (sum_list (map (\<lambda>file. length (buffer file)) files))]\<rparr>)
         \<and> decimalPlaces (p * m) 0 \<in> \<int>
         \<and> \<bar>decimalPlaces (p * m) 0 - p * m\<bar> \<le> 1 / 2"
proof -
  have bytes: "getBytes (Files files) = sum_list (map (\<lambda>file. length (buffer file)) files)"
    by (rule getBytes_Files)
  have "getPrice net files s =
           (Inr (fromLamports
                   (decimalPlaces
                      (p * (case priceMultiplier (options s) of None \<Rightarrow> 3 / 2 | Some m \<Rightarrow> m)) 0)),
            s1\<lparr>world := w2,
               calls := calls s1
                 @ [Call_getPrice (object_id b) (sum_list (map (\<lambda>file. length (buffer file)) files))]\<rparr>)"
    using getMultipliedPrice_eq [OF assms(1), of "getBytes (Files files)" p w2] assms(2)
    by (simp add: getPrice_def bytes await_def resolve_def)
  moreover have "decimalPlaces (p * m) 0 \<in> \<int>"
    by (simp add: decimalPlaces_0)
  moreover have "\<bar>decimalPlaces (p * m) 0 - p * m\<bar> \<le> 1 / 2"
    using round_half_up_near [of "p * m"] by (simp add: decimalPlaces_0)
  ultimately show ?thesis by blast
qed

theorem getPrice_marked_up_witness:
  "getBundlr sample_network (fresh_driver keypair_metaplex sample_world)
     = (Inr (new_bundlr (fresh_driver keypair_metaplex sample_world)),
        snd (getBundlr sample_network (fresh_driver keypair_metaplex sample_world)))
   \<and> fst (getPrice sample_network [file1, file2] (fresh_driver keypair_metaplex sample_world))
     = Inr (fromLamports 38)
   \<and> filter (\<lambda>c. \<not> is_initialization c)
        (calls (snd (getPrice sample_network [file1, file2]
                       (fresh_driver keypair_metaplex sample_world))))
     = [Call_getPrice 0 5]"
proof -
  let ?s = "fresh_driver keypair_metaplex sample_world"
  let ?s1 = "snd (getBundlr sample_network ?s)"
  have h1: "getBundlr sample_network ?s = (Inr (new_bundlr ?s), ?s1)"
    by (simp add: sample_defs driver_defs async_defs)
  have h2: "net_getPrice sample_network (new_bundlr ?s)
              (sum_list (map (\<lambda>file. length (buffer file)) [file1, file2])) (world ?s1)
            = (Inr 25, world ?s1)"
    by (simp add: sample_defs driver_defs async_defs)
  have s1: "filter (\<lambda>c. \<not> is_initialization c) (calls ?s1) = []"
    "object_id (new_bundlr ?s) = 0" "priceMultiplier (options ?s) = None"
    by (simp_all add: sample_defs driver_defs async_defs)
  have r: "decimalPlaces (25 * (3 / 2)) 0 = 38"
    by (simp add: decimalPlaces_def round_half_up_def)
  show ?thesis
    using getPrice_marked_up [OF h1 h2, of "3 / 2"] h1 s1 r
    by (simp add: file1_def file2_def)
qed

lemma getMultipliedPrice_Inr_bundlr:
  assumes "getMultipliedPrice net bytes s = (Inr price, s1)"
  shows "\<exists>b. bundlr s1 = Some b"
proof -
  from assms obtain b s0 where g: "getBundlr net s = (Inr b, s0)"
    by (auto simp: getMultipliedPrice_def await_def split: prod.splits sum.splits)
  then have "bundlr s0 = Some b" by (rule getBundlr_Inr_bundlr)
  moreover from assms g have "bundlr s1 = bundlr s0"
    by (auto simp: getMultipliedPrice_def async_defs split: prod.splits sum.splits)
  ultimately show ?thesis by simp
qed

text \<open>
  C2. Let the marked-up price of the byte count, or of the files, be \<open>price\<close>
  (\<open>getMultipliedPrice\<close> succeeds with it). With \<open>skipBalanceCheck\<close> true,
  \<open>fundingNeeded\<close> returns \<open>price\<close> and stops there: the balance is not read. With
  \<open>skipBalanceCheck\<close> false it reads the balance on the client the driver holds
  (it holds one), and returns zero when the balance is at least \<open>price\<close> and
  \<open>price - balance\<close> when it is below; that result is never negative.
\<close>

theorem fundingNeeded_amount:
  assumes "getMultipliedPrice net (getBytes filesOrBytes) s = (Inr price, s1)"
  shows "fundingNeeded net filesOrBytes True s = (Inr price, s1)
       \<and> (\<forall>b balance w2.
            bundlr s1 = Some b \<and> net_getLoadedBalance net b (world s1) = (Inr balance, w2) \<longrightarrow>
            fundingNeeded net filesOrBytes False s =
              (Inr (if balance \<ge> price then 0 else price - balance),
               s1\<lparr>world := w2, calls := calls s1 @ [Call_getLoadedBalance (object_id b)]\<rparr>)
            \<and> 0 \<le> (if balance \<ge> price then 0 else price - balance))
       \<and> (\<exists>b. bundlr s1 = Some b)"
  using assms getMultipliedPrice_Inr_bundlr [OF assms]
  by (auto simp: fundingNeeded_def getBundlr_held async_defs)

theorem fundingNeeded_amount_witness:
  "fst (getMultipliedPrice sample_network (getBytes (Bytes 3))
          (fresh_driver keypair_metaplex (sample_world\<lparr>w_balance := 10\<rparr>))) = Inr 23
   \<and> fst (fundingNeeded sample_network (Bytes 3) True
            (fresh_driver keypair_metaplex (sample_world\<lparr>w_balance := 10\<rparr>))) = Inr 23
   \<and> fst (fundingNeeded sample_network (Bytes 3) False
            (fresh_driver keypair_metaplex (sample_world\<lparr>w_balance := 10\<rparr>))) = Inr 13
   \<and> fst (fundingNeeded sample_network (Bytes 3) True
            (fresh_driver keypair_metaplex (sample_world\<lparr>w_balance := 10000\<rparr>))) = Inr 23
   \<and> fst (fundingNeeded sample_network (Bytes 3) False
            (fresh_driver keypair_metaplex (sample_world\<lparr>w_balance := 10000\<rparr>))) = Inr 0"
proof -
  let ?poor = "fresh_driver keypair_metaplex (sample_world\<lparr>w_balance := 10\<rparr>)"
  let ?rich = "fresh_driver keypair_metaplex (sample_world\<lparr>w_balance := 10000\<rparr>)"
  let ?p1 = "snd (getMultipliedPrice sample_network (getBytes (Bytes 3)) ?poor)"
  let ?r1 = "snd (getMultipliedPrice sample_network (getBytes (Bytes 3)) ?rich)"
  have poor: "getMultipliedPrice sample_network (getBytes (Bytes 3)) ?poor = (Inr 23, ?p1)"
    by (simp add: sample_defs driver_defs async_defs)
  have rich: "getMultipliedPrice sample_network (getBytes (Bytes 3)) ?rich = (Inr 23, ?r1)"
    by (simp add: sample_defs driver_defs async_defs)
  have p1: "bundlr ?p1 = Some (new_bundlr ?poor)"
    "net_getLoadedBalance sample_network (new_bundlr ?poor) (world ?p1) = (Inr 10, world ?p1)"
    by (simp_all add: sample_defs driver_defs async_defs)
  have r1: "bundlr ?r1 = Some (new_bundlr ?rich)"
    "net_getLoadedBalance sample_network (new_bundlr ?rich) (world ?r1) = (Inr 10000, world ?r1)"
    by (simp_all add: sample_defs driver_defs async_defs)
  have "fst (fundingNeeded sample_network (Bytes 3) True ?poor) = Inr 23
      \<and> fst (fundingNeeded sample_network (Bytes 3) False ?poor) = Inr 13"
    using fundingNeeded_amount [OF poor] p1 by simp
  moreover have "fst (fundingNeeded sample_network (Bytes 3) True ?rich) = Inr 23
      \<and> fst (fundingNeeded sample_network (Bytes 3) False ?rich) = Inr 0"
    using fundingNeeded_amount [OF rich] r1 by simp
  moreover have "fst (getMultipliedPrice sample_network (getBytes (Bytes 3)) ?poor) = Inr 23"
    by (simp add: sample_defs driver_defs async_defs)
  ultimately show ?thesis
    by blast
qed


section \<open>BundlrStorageDriver.ts: withdrawals\<close>

lemma getBalance_eq:
  assumes "getBundlr net s = (Inr b, s0)"
      and "net_getLoadedBalance net b (world s0) = (Inr balance, w1)"
  shows "getBalance net s =
           (Inr (fromLamports balance),
            s0\<lparr>world := w1, calls := calls s0 @ [Call_getLoadedBalance (object_id b)]\<rparr>)"
  using assms by (simp add: getBalance_def async_defs)

text \<open>
  C3, as the code has it. \<open>withdrawAll\<close> reads the balance. When the balance is
  below 5000 it returns there, and the only call made on the client is the
  reading of the balance. When the balance is 5000 or more it makes one
  withdrawal call, of exactly the balance minus 5000, whatever that call
  answers; when the call answers a status, the result is the withdrawal error
  for a status of 300 or more and a normal return otherwise.
\<close>

theorem withdrawAll_reserve:
  assumes "getBundlr net s = (Inr b, s0)"
      and "net_getLoadedBalance net b (world s0) = (Inr balance, w1)"
  shows "(balance < 5000 \<longrightarrow>
            withdrawAll net s =
              (Inr (), s0\<lparr>world := w1, calls := calls s0 @ [Call_getLoadedBalance (object_id b)]\<rparr>))
       \<and> (5000 \<le> balance \<longrightarrow>
            calls (snd (withdrawAll net s)) =
              calls s0 @ [Call_getLoadedBalance (object_id b),
                          Call_withdrawBalance (object_id b) (balance - 5000)])
       \<and> (\<forall>status w2.
            5000 \<le> balance \<and> net_withdrawBalance net b (balance - 5000) w1 = (Inr status, w2) \<longrightarrow>
            withdrawAll net s =
              (if status \<ge> 300 then Inl (BundlrWithdrawError status) else Inr (),
               s0\<lparr>world := w2,
                  calls := calls s0 @ [Call_getLoadedBalance (object_id b),
                                      Call_withdrawBalance (object_id b) (balance - 5000)]\<rparr>))"
proof -
  have b: "bundlr s0 = Some b"
    using assms(1) by (rule getBundlr_Inr_bundlr)
  let ?s1 = "s0\<lparr>world := w1, calls := calls s0 @ [Call_getLoadedBalance (object_id b)]\<rparr>"
  have g: "getBundlr net ?s1 = (Inr b, ?s1)"
    using b by (simp add: getBundlr_held)
  have bal: "getBalance net s = (Inr (fromLamports balance), ?s1)"
    using assms by (rule getBalance_eq)
  show ?thesis
    using bal g
    by (auto simp: withdrawAll_def withdraw_def fromLamports_def isLessThan_def minus_amount_def
                   Let_def async_defs split: prod.splits sum.splits)
qed

theorem withdrawAll_reserve_witness:
  "getBundlr sample_network (fresh_driver keypair_metaplex (sample_world\<lparr>w_balance := 10000\<rparr>))
     = (Inr (new_bundlr (fresh_driver keypair_metaplex (sample_world\<lparr>w_balance := 10000\<rparr>))),
        snd (getBundlr sample_network (fresh_driver keypair_metaplex (sample_world\<lparr>w_balance := 10000\<rparr>))))
   \<and> filter is_withdrawal
        (calls (snd (withdrawAll sample_network
                       (fresh_driver keypair_metaplex (sample_world\<lparr>w_balance := 10000\<rparr>)))))
       = [Call_withdrawBalance 0 5000]
   \<and> fst (withdrawAll sample_network
            (fresh_driver keypair_metaplex (sample_world\<lparr>w_balance := 10000\<rparr>))) = Inr ()
   \<and> filter is_withdrawal
        (calls (snd (withdrawAll sample_network
                       (fresh_driver keypair_metaplex (sample_world\<lparr>w_balance := 4999\<rparr>)))))
       = []"
proof -
  let ?rich = "fresh_driver keypair_metaplex (sample_world\<lparr>w_balance := 10000\<rparr>)"
  let ?poor = "fresh_driver keypair_metaplex (sample_world\<lparr>w_balance := 4999\<rparr>)"
  let ?r0 = "snd (getBundlr sample_network ?rich)"
  let ?p0 = "snd (getBundlr sample_network ?poor)"
  have rich: "getBundlr sample_network ?rich = (Inr (new_bundlr ?rich), ?r0)"
    by (simp add: sample_defs driver_defs async_defs)
  have poor: "getBundlr sample_network ?poor = (Inr (new_bundlr ?poor), ?p0)"
    by (simp add: sample_defs driver_defs async_defs)
  have rich_balance:
    "net_getLoadedBalance sample_network (new_bundlr ?rich) (world ?r0) = (Inr 10000, world ?r0)"
    by (simp add: sample_defs driver_defs async_defs)
  have poor_balance:
    "net_getLoadedBalance sample_network (new_bundlr ?poor) (world ?p0) = (Inr 4999, world ?p0)"
    by (simp add: sample_defs driver_defs async_defs)
  have rich_withdrawal:
    "net_withdrawBalance sample_network (new_bundlr ?rich) (10000 - 5000) (world ?r0)
       = (Inr 200, (world ?r0)\<lparr>w_balance := 5000\<rparr>)"
    by (simp add: sample_defs driver_defs async_defs)
  have before: "filter is_withdrawal (calls ?r0) = []" "filter is_withdrawal (calls ?p0) = []"
    "object_id (new_bundlr ?rich) = 0"
    by (simp_all add: sample_defs driver_defs async_defs)
  have "filter is_withdrawal (calls (snd (withdrawAll sample_network ?rich)))
          = [Call_withdrawBalance 0 5000]
      \<and> fst (withdrawAll sample_network ?rich) = Inr ()"
    using withdrawAll_reserve [OF rich rich_balance] rich_withdrawal before by simp
  moreover have "filter is_withdrawal (calls (snd (withdrawAll sample_network ?poor))) = []"
    using withdrawAll_reserve [OF poor poor_balance] before by simp
  ultimately show ?thesis
    using rich by blast
qed

text \<open>
  At a balance of exactly 5000, which is at most 5000, a withdrawal call is
  made, of the amount 0.
\<close>

theorem withdrawAll_at_reserve_counterexample:
  "filter is_withdrawal
     (calls (snd (withdrawAll sample_network
                    (fresh_driver keypair_metaplex (sample_world\<lparr>w_balance := 5000\<rparr>)))))
   = [Call_withdrawBalance 0 0]"
  by (simp add: sample_defs driver_defs async_defs)


section \<open>BundlrStorageDriver.ts: uploads\<close>

lemma uploadFile_memoized:
  assumes "bundlr s = Some b"
      and "net_upload net b (toBuffer file) (getTagsWithContentType file) (world s) = (r, w1)"
  shows "uploadFile net file s =
           (upload_result r,
            s\<lparr>world := w1,
              calls := calls s @ [Call_upload (object_id b) (toBuffer file) (getTagsWithContentType file)]\<rparr>)"
  using assms
  by (cases r) (auto simp: uploadFile_def upload_result_def getBundlr_held async_defs)

lemma upload_answers_length:
  "upload_answers net b files w = (as, w2) \<Longrightarrow> length as = length files"
  by (induction files arbitrary: w as) (auto split: prod.splits)

lemma map_async_uploadFile:
  assumes "bundlr s = Some b" and "upload_answers net b files (world s) = (as, w2)"
  shows "map_async (uploadFile net) files s =
           (map upload_result as, s\<lparr>world := w2, calls := calls s @ upload_calls b files\<rparr>)"
  using assms
proof (induction files arbitrary: s as)
  case Nil
  then show ?case by (simp add: upload_calls_def)
next
  case (Cons f fs)
  obtain r w1 where r: "net_upload net b (toBuffer f) (getTagsWithContentType f) (world s) = (r, w1)"
    by (cases "net_upload net b (toBuffer f) (getTagsWithContentType f) (world s)")
  obtain rs where rs: "upload_answers net b fs w1 = (rs, w2)" and as: "as = r # rs"
    using Cons.prems(2) r by (auto split: prod.splits)
  let ?s1 = "s\<lparr>world := w1,
               calls := calls s @ [Call_upload (object_id b) (toBuffer f) (getTagsWithContentType f)]\<rparr>"
  have "map_async (uploadFile net) fs ?s1 =
          (map upload_result rs, ?s1\<lparr>world := w2, calls := calls ?s1 @ upload_calls b fs\<rparr>)"
    using Cons.prems(1) rs by (intro Cons.IH) simp_all
  then show ?case
    using uploadFile_memoized [OF Cons.prems(1) r] as
    by (simp add: upload_calls_def)
qed

lemma find_Some_holds: "List.find P xs = Some x \<Longrightarrow> P x \<and> x \<in> set xs"
  by (induction xs) (auto split: if_splits)

lemma Promise_all_fulfilled: "Promise_all settled (map Inr xs) = Inr xs"
proof -
  let ?rs = "map Inr xs :: (error + 'a) list"
  have "List.find (\<lambda>i. isl (?rs ! i))
          (filter (\<lambda>i. i < length ?rs) settled @ [0..<length ?rs]) = None"
    by (auto simp: find_None_iff)
  then show ?thesis
    by (simp add: Promise_all_def map_idI)
qed

lemma Promise_all_rejected:
  assumes "\<exists>r\<in>set rs. isl r"
  shows "\<exists>i<length rs. isl (rs ! i) \<and> Promise_all settled rs = Inl (projl (rs ! i))"
proof -
  let ?order = "filter (\<lambda>i. i < length rs) settled @ [0..<length rs]"
  from assms obtain j where j: "j < length rs" "isl (rs ! j)"
    by (auto simp: in_set_conv_nth)
  then have "j \<in> set ?order" by simp
  with j have "List.find (\<lambda>i. isl (rs ! i)) ?order \<noteq> None"
    by (auto simp: find_None_iff)
  then obtain i where i: "List.find (\<lambda>i. isl (rs ! i)) ?order = Some i"
    by auto
  then have "isl (rs ! i) \<and> i \<in> set ?order"
    by (rule find_Some_holds)
  then have "isl (rs ! i)" and "i < length rs" by auto
  then show ?thesis
    using i by (auto simp: Promise_all_def)
qed


lemma getBundlr_flag:
  "getBundlr net s = (r, s1) \<Longrightarrow> p_withdrawAfterUploading s1 = p_withdrawAfterUploading s"
  by (cases "bundlr s")
     (auto simp: getBundlr_def construct_def set_bundlr_def async_defs
           split: prod.splits sum.splits if_splits)

lemma upload_result_fulfilled:
  "\<forall>a\<in>set answers. fst a < 300 \<Longrightarrow>
   map upload_result (map Inr answers) = map Inr (map (\<lambda>a. ''https://arweave.net/'' @ snd a) answers)"
  by (induction answers) (auto simp: upload_result_def split: prod.splits)

lemma upload_result_rejected:
  "isl (upload_result (Inr a)) \<longleftrightarrow> 300 \<le> fst a"
  "isl (upload_result (Inr a)) \<Longrightarrow> projl (upload_result (Inr a)) = AssetUploadFailedError (fst a)"
  by (auto simp: upload_result_def split: prod.splits)

lemma fund_deposit:
  assumes "getBundlr net s = (Inr b, s0)"
      and "net_getPrice net b (getBytes filesOrBytes) (world s0) = (Inr p, w1)"
      and "net_getLoadedBalance net b w1 = (Inr balance, w2)"
      and "price = decimalPlaces
                     (p * (case priceMultiplier (options s) of None \<Rightarrow> 3 / 2 | Some m \<Rightarrow> m)) 0"
      and "if price > balance then net_fund net b (price - balance) w2 = (Inr (), w3) else w3 = w2"
  shows "fund net filesOrBytes False s =
           (Inr (),
            s0\<lparr>world := w3,
               calls := calls s0
                 @ [Call_getPrice (object_id b) (getBytes filesOrBytes),
                    Call_getLoadedBalance (object_id b)]
                 @ (if price > balance then [Call_fund (object_id b) (price - balance)] else [])\<rparr>)"
proof -
  have b: "bundlr s0 = Some b"
    using assms(1) by (rule getBundlr_Inr_bundlr)
  have o: "options s0 = options s"
    using assms(1) by (rule getBundlr_options)
  show ?thesis
  proof (cases "price > balance")
    case True
    with assms b o show ?thesis
      by (simp add: fund_def fundingNeeded_def getMultipliedPrice_def getBundlr_held async_defs)
  next
    case False
    with assms b o show ?thesis
      by (simp add: fund_def fundingNeeded_def getMultipliedPrice_def getBundlr_held async_defs)
  qed
qed

text \<open>
  C1, as the code has it. Let the client be there (\<open>getBundlr\<close> succeeds with \<open>b\<close>),
  let the network quote \<open>p\<close> for the total byte count of the batch and report the
  balance, let \<open>price\<close> be the marked-up price, let the deposit, when one is
  made, succeed, and let the network answer every upload of the batch with the
  statuses and identifiers \<open>answers\<close>, in the order of the files. Then the funding
  succeeds and consists of the price query, the reading of the balance and,
  exactly when \<open>price\<close> exceeds the balance, one deposit of \<open>price - balance\<close>, so
  that balance and deposit together cover \<open>price\<close>; the uploads are made after
  it, one for each file in order; there is one answer for each file. When every
  status is below 300, the call returns, for each file in order, the identifier
  answered for that file appended to \<^verbatim>\<open>https://arweave.net/\<close>: at once when the
  driver does not withdraw after uploading, and after \<open>withdrawAll\<close> when it does,
  and then only if \<open>withdrawAll\<close> succeeds: if it fails, the call fails with its
  error and returns no URI. When some status is 300 or more, then whatever the
  order \<open>settled\<close> in which the uploads settle, the call fails with the upload
  error carrying the status of an upload that answered 300 or more, returns no
  URI, and withdraws nothing.
\<close>

theorem uploadAll_uris:
  assumes "getBundlr net s = (Inr b, s0)"
      and "net_getPrice net b (sum_list (map (\<lambda>file. length (buffer file)) files)) (world s0)
             = (Inr p, w1)"
      and "net_getLoadedBalance net b w1 = (Inr balance, w2)"
      and "price = decimalPlaces
                     (p * (case priceMultiplier (options s) of None \<Rightarrow> 3 / 2 | Some m \<Rightarrow> m)) 0"
      and "if price > balance then net_fund net b (price - balance) w2 = (Inr (), w3) else w3 = w2"
      and "s1 = s0\<lparr>world := w3,
                  calls := calls s0
                    @ [Call_getPrice (object_id b) (sum_list (map (\<lambda>file. length (buffer file)) files)),
                       Call_getLoadedBalance (object_id b)]
                    @ (if price > balance then [Call_fund (object_id b) (price - balance)] else [])\<rparr>"
      and "upload_answers net b files w3 = (map Inr answers, w4)"
      and "s2 = s1\<lparr>world := w4, calls := calls s1 @ upload_calls b files\<rparr>"
  shows "fund net (Files files) False s = (Inr (), s1)
       \<and> price \<le> balance + (if price > balance then price - balance else 0)
       \<and> length answers = length files
       \<and> ((\<forall>a\<in>set answers. fst a < 300) \<and> \<not> shouldWithdrawAfterUploading s \<longrightarrow>
            uploadAll net settled files s =
              (Inr (map (\<lambda>a. ''https://arweave.net/'' @ snd a) answers), s2))
       \<and> (\<forall>r s3. (\<forall>a\<in>set answers. fst a < 300) \<and> shouldWithdrawAfterUploading s
              \<and> withdrawAll net s2 = (r, s3) \<longrightarrow>
            uploadAll net settled files s =
              (case r of
                 Inl e \<Rightarrow> Inl e
               | Inr u \<Rightarrow> Inr (map (\<lambda>a. ''https://arweave.net/'' @ snd a) answers),
               s3))
       \<and> ((\<exists>a\<in>set answers. 300 \<le> fst a) \<longrightarrow>
            (\<exists>i<length answers. 300 \<le> fst (answers ! i)
               \<and> uploadAll net settled files s =
                   (Inl (AssetUploadFailedError (fst (answers ! i))), s2)))"
proof -
  let ?uris = "map (\<lambda>a. ''https://arweave.net/'' @ snd a) answers"
  let ?rs = "map upload_result (map Inr answers)"
  have held: "bundlr s1 = Some b"
    using getBundlr_Inr_bundlr [OF assms(1)] assms(6) by simp
  have w: "world s1 = w3"
    using assms(6) by simp
  have funded: "fund net (Files files) False s = (Inr (), s1)"
    using fund_deposit [OF assms(1), of "Files files" p w1 balance w2 price w3] assms(2-6)
    by (simp add: getBytes_Files)
  have enough: "price \<le> balance + (if price > balance then price - balance else 0)"
    by simp
  have len: "length answers = length files"
    using upload_answers_length [OF assms(7)] by simp
  have flag: "shouldWithdrawAfterUploading s2 = shouldWithdrawAfterUploading s"
    using getBundlr_flag [OF assms(1)] assms(6,8)
    by (simp add: shouldWithdrawAfterUploading_def)
  have ups: "map_async (uploadFile net) files s1 = (?rs, s2)"
    using map_async_uploadFile [OF held, of net files "map Inr answers" w4] assms(7,8) w
    by simp
  have all: "uploadAll net settled files s =
               (case Promise_all settled ?rs of
                  Inl e \<Rightarrow> (Inl e, s2)
                | Inr uris \<Rightarrow>
                    (if shouldWithdrawAfterUploading s
                     then (case withdrawAll net s2 of
                             (Inl e, s3) \<Rightarrow> (Inl e, s3)
                           | (Inr u, s3) \<Rightarrow> (Inr uris, s3))
                     else (Inr uris, s2)))"
    using funded ups flag
    by (simp add: uploadAll_def await_def resolve_def read_def split: sum.splits prod.splits)
  have ok: "Promise_all settled ?rs = Inr ?uris" if "\<forall>a\<in>set answers. fst a < 300"
    using that by (simp only: upload_result_fulfilled Promise_all_fulfilled)
  have ko: "\<exists>i<length answers. 300 \<le> fst (answers ! i)
              \<and> Promise_all settled ?rs = Inl (AssetUploadFailedError (fst (answers ! i)))"
    if "\<exists>a\<in>set answers. 300 \<le> fst a"
  proof -
    from that have "\<exists>r\<in>set ?rs. isl r"
      by (auto simp: upload_result_rejected(1))
    then obtain i where i: "i < length ?rs" "isl (?rs ! i)"
      and p: "Promise_all settled ?rs = Inl (projl (?rs ! i))"
      using Promise_all_rejected [of ?rs settled] by blast
    from i have "i < length answers" by simp
    moreover from this i(2) have "isl (upload_result (Inr (answers ! i)))" by simp
    moreover from \<open>i < length answers\<close> have "?rs ! i = upload_result (Inr (answers ! i))" by simp
    ultimately show ?thesis
      using p upload_result_rejected [of "answers ! i"] by auto
  qed
  have c4: "(\<forall>a\<in>set answers. fst a < 300) \<and> \<not> shouldWithdrawAfterUploading s \<longrightarrow>
            uploadAll net settled files s = (Inr ?uris, s2)"
    using all ok by simp
  have c5: "\<forall>r s3. (\<forall>a\<in>set answers. fst a < 300) \<and> shouldWithdrawAfterUploading s
              \<and> withdrawAll net s2 = (r, s3) \<longrightarrow>
            uploadAll net settled files s =
              (case r of Inl e \<Rightarrow> Inl e | Inr u \<Rightarrow> Inr ?uris, s3)"
    using all ok by (auto split: sum.splits)
  have c6: "(\<exists>a\<in>set answers. 300 \<le> fst a) \<longrightarrow>
            (\<exists>i<length answers. 300 \<le> fst (answers ! i)
               \<and> uploadAll net settled files s =
                   (Inl (AssetUploadFailedError (fst (answers ! i))), s2))"
  proof
    assume "\<exists>a\<in>set answers. 300 \<le> fst a"
    then obtain i where i: "i < length answers" "300 \<le> fst (answers ! i)"
      and p: "Promise_all settled ?rs = Inl (AssetUploadFailedError (fst (answers ! i)))"
      using ko by blast
    have "uploadAll net settled files s = (Inl (AssetUploadFailedError (fst (answers ! i))), s2)"
      unfolding all p by simp
    with i show "\<exists>i<length answers. 300 \<le> fst (answers ! i)
               \<and> uploadAll net settled files s =
                   (Inl (AssetUploadFailedError (fst (answers ! i))), s2)"
      by blast
  qed
  show ?thesis
    using funded enough len c4 c5 c6 by blast
qed

theorem uploadAll_uris_witness:
  "fst (fund sample_network (Files [file1, file2]) False
          (fresh_driver keypair_metaplex (sample_world\<lparr>w_answers := [(200, ''a''), (201, ''b'')]\<rparr>)))
     = Inr ()
   \<and> filter (\<lambda>c. \<not> is_initialization c)
       (calls (snd (fund sample_network (Files [file1, file2]) False
                      (fresh_driver keypair_metaplex
                         (sample_world\<lparr>w_answers := [(200, ''a''), (201, ''b'')]\<rparr>)))))
     = [Call_getPrice 0 5, Call_getLoadedBalance 0, Call_fund 0 38]
   \<and> fst (uploadAll sample_network [] [file1, file2]
            (dontWithdrawAfterUploading
               (fresh_driver keypair_metaplex
                  (sample_world\<lparr>w_answers := [(200, ''a''), (201, ''b'')]\<rparr>))))
     = Inr [''https://arweave.net/a'', ''https://arweave.net/b'']
   \<and> fst (uploadAll sample_network [] [file1, file2]
            (fresh_driver keypair_metaplex
               (sample_world\<lparr>w_answers := [(200, ''a''), (201, ''b'')]\<rparr>)))
     = Inr [''https://arweave.net/a'', ''https://arweave.net/b'']
   \<and> fst (uploadAll sample_network [1, 0] [file1, file2]
            (fresh_driver keypair_metaplex
               (sample_world\<lparr>w_answers := [(200, ''a''), (500, ''b'')]\<rparr>)))
     = Inl (AssetUploadFailedError 500)"
proof -
  let ?good = "sample_world\<lparr>w_answers := [(200, ''a''), (201, ''b'')]\<rparr>"
  let ?bad = "sample_world\<lparr>w_answers := [(200, ''a''), (500, ''b'')]\<rparr>"
  let ?total = "sum_list (map (\<lambda>file. length (buffer file)) [file1, file2])"
  have sample_run:
    "fst (fund sample_network (Files [file1, file2]) False s) = Inr ()
     \<and> filter (\<lambda>c. \<not> is_initialization c)
         (calls (snd (fund sample_network (Files [file1, file2]) False s)))
         = [Call_getPrice 0 5, Call_getLoadedBalance 0, Call_fund 0 38]
     \<and> (\<not> shouldWithdrawAfterUploading s \<and> ok \<longrightarrow>
          fst (uploadAll sample_network settled [file1, file2] s)
            = Inr [''https://arweave.net/a'', ''https://arweave.net/b''])
     \<and> (shouldWithdrawAfterUploading s \<and> ok \<longrightarrow>
          fst (uploadAll sample_network settled [file1, file2] s)
            = Inr [''https://arweave.net/a'', ''https://arweave.net/b''])
     \<and> (\<not> ok \<longrightarrow>
          fst (uploadAll sample_network settled [file1, file2] s)
            = Inl (AssetUploadFailedError 500))"
    if s: "s = fresh_driver keypair_metaplex wd \<or> s = dontWithdrawAfterUploading (fresh_driver keypair_metaplex wd)"
      and wd: "wd = sample_world\<lparr>w_answers := [(200, ''a''), (st, ''b'')]\<rparr>"
      and st: "st = 201 \<and> ok \<or> st = 500 \<and> \<not> ok"
    for s :: "World State" and wd st ok settled
  proof -
    let ?b = "new_bundlr s"
    let ?s0 = "snd (getBundlr sample_network s)"
    let ?w3 = "(world ?s0)\<lparr>w_balance := 38\<rparr>"
    let ?s1 = "?s0\<lparr>world := ?w3,
                  calls := calls ?s0
                    @ [Call_getPrice (object_id ?b) ?total, Call_getLoadedBalance (object_id ?b)]
                    @ (if (38::rat) > 0 then [Call_fund (object_id ?b) (38 - 0)] else [])\<rparr>"
    let ?w4 = "?w3\<lparr>w_answers := []\<rparr>"
    let ?s2 = "?s1\<lparr>world := ?w4, calls := calls ?s1 @ upload_calls ?b [file1, file2]\<rparr>"
    have h1: "getBundlr sample_network s = (Inr ?b, ?s0)"
      using s wd by (auto simp: sample_defs driver_defs async_defs)
    have h2: "net_getPrice sample_network ?b ?total (world ?s0) = (Inr 25, world ?s0)"
      using s wd by (auto simp: sample_defs driver_defs async_defs)
    have h3: "net_getLoadedBalance sample_network ?b (world ?s0) = (Inr 0, world ?s0)"
      using s wd by (auto simp: sample_defs driver_defs async_defs)
    have h4: "(38::rat) = decimalPlaces
                 (25 * (case priceMultiplier (options s) of None \<Rightarrow> 3 / 2 | Some m \<Rightarrow> m)) 0"
      using s wd by (auto simp: sample_defs driver_defs async_defs)
    have h5: "if (38::rat) > 0
              then net_fund sample_network ?b (38 - 0) (world ?s0) = (Inr (), ?w3)
              else ?w3 = world ?s0"
      using s wd by (auto simp: sample_defs driver_defs async_defs)
    have h6: "?s1 = ?s1" by (rule refl)
    have h7: "upload_answers sample_network ?b [file1, file2] ?w3
                = (map Inr [(200, ''a''), (st, ''b'')], ?w4)"
      using s wd by (auto simp: sample_defs driver_defs async_defs)
    have h8: "?s2 = ?s2" by (rule refl)
    note on_sample = uploadAll_uris [OF h1 h2 h3 h4 h5 h6 h7 h8, of settled]
    have before: "filter (\<lambda>c. \<not> is_initialization c) (calls ?s0) = []" "object_id ?b = 0"
      "?total = 5"
      using s wd by (auto simp: sample_defs driver_defs async_defs)
    have withdrawn: "fst (withdrawAll sample_network ?s2) = Inr ()"
      using s wd by (auto simp: sample_defs driver_defs async_defs upload_calls_def)
    obtain r s3 where w: "withdrawAll sample_network ?s2 = (r, s3)"
      by (rule prod.exhaust)
    with withdrawn have r: "r = Inr ()" by simp
    have funded: "fst (fund sample_network (Files [file1, file2]) False s) = Inr ()"
      "filter (\<lambda>c. \<not> is_initialization c)
         (calls (snd (fund sample_network (Files [file1, file2]) False s)))
         = [Call_getPrice 0 5, Call_getLoadedBalance 0, Call_fund 0 38]"
      using on_sample before by simp_all
    have quiet: "\<not> shouldWithdrawAfterUploading s \<and> ok \<longrightarrow>
          fst (uploadAll sample_network settled [file1, file2] s)
            = Inr [''https://arweave.net/a'', ''https://arweave.net/b'']"
      using on_sample st by auto
    have loud: "shouldWithdrawAfterUploading s \<and> ok \<longrightarrow>
          fst (uploadAll sample_network settled [file1, file2] s)
            = Inr [''https://arweave.net/a'', ''https://arweave.net/b'']"
      using on_sample st w r by auto
    have failing: "\<not> ok \<longrightarrow>
          fst (uploadAll sample_network settled [file1, file2] s)
            = Inl (AssetUploadFailedError 500)"
      using on_sample st by (auto simp: less_Suc_eq numeral_2_eq_2)
    show ?thesis
      using funded quiet loud failing by blast
  qed
  have flags:
    "\<not> shouldWithdrawAfterUploading (dontWithdrawAfterUploading (fresh_driver keypair_metaplex ?good))"
    "shouldWithdrawAfterUploading (fresh_driver keypair_metaplex ?good)"
    by (simp_all add: sample_defs driver_defs)
  show ?thesis
    using sample_run [of "fresh_driver keypair_metaplex ?good" ?good 201 True "[]"]
      sample_run [of "dontWithdrawAfterUploading (fresh_driver keypair_metaplex ?good)" ?good 201 True "[]"]
      sample_run [of "fresh_driver keypair_metaplex ?bad" ?bad 500 False "[1, 0]"]
      flags
    by simp
qed

text \<open>
  Every upload answers 200, and yet the call returns no URI: the driver
  withdraws after uploading, the withdrawal answers 400, and the call fails
  with the withdrawal error.
\<close>

theorem uploadAll_withdrawal_counterexample:
  "fst (uploadAll sample_network [] [file1, file2]
          (fresh_driver keypair_metaplex
             (sample_world\<lparr>w_balance := 10000, w_withdraw_status := 400\<rparr>)))
     = Inl (BundlrWithdrawError 400)
   \<and> fst (upload_answers sample_network
            (new_bundlr (fresh_driver keypair_metaplex
                           (sample_world\<lparr>w_balance := 10000, w_withdraw_status := 400\<rparr>)))
            [file1, file2] (sample_world\<lparr>w_balance := 10000, w_withdraw_status := 400\<rparr>))
     = [Inr (200, ''tx''), Inr (200, ''tx'')]
   \<and> filter is_upload
       (calls (snd (uploadAll sample_network [] [file1, file2]
                      (fresh_driver keypair_metaplex
                         (sample_world\<lparr>w_balance := 10000, w_withdraw_status := 400\<rparr>)))))
     = [Call_upload 0 [1, 2, 3] [(''Content-Type'', ''image/png'')], Call_upload 0 [4, 5] []]"
  by (simp add: sample_defs driver_defs async_defs)


end
